theory Spec2Isabelle
  imports Complex_Main "HOL-Library.Log_Nat"
begin

section \<open>CodeVault performance monitor (backend/monitor.py)\<close>

text \<open>
  The monitor times HTTP requests, collects the successful samples and summarises their
  latencies. The model takes everything the outside world decides as an input: the two
  readings of \<open>time.time()\<close> around a request and what \<open>requests.get\<close> did (a response,
  a \<open>requests.RequestException\<close>, or some other exception). A Python float is an
  IEEE 754 double: the model keeps the real number it denotes and rounds the exact result
  of every float operation to the nearest double.

  Outside the model: the \<open>timeout\<close> arguments (they only decide which outcome a request
  has), the console output of \<open>run_benchmark\<close>, the inside of
  \<open>print_network_dashboard\<close> with its two fetchers (\<open>main\<close> sees only whether it
  returns), the drawing done by \<open>generate_comparison_graph\<close> (\<open>main\<close> records the
  document it passes), and a failure to open the results file.
\<close>

subsection \<open>Python values, exceptions and the outside world\<close>

text \<open>
  The values a decoded JSON body or a field of a record can hold. A dictionary is the list
  of its items, read by the first match for a key.
\<close>

datatype pyval =
    PNone
  | PBool bool
  | PInt int
  | PFloat real
  | PStr string
  | PList "pyval list"
  | PDict "(string \<times> pyval) list"

text \<open>Exceptions; the string is the key of a \<open>KeyError\<close> and the message of the others.\<close>

datatype pyexn =
    KeyError string
  | TypeError string
  | ValueError string
  | AttributeError string
  | StatisticsError string
  | OtherError string

text \<open>
  A \<open>requests.Response\<close> as far as the monitor reads it: \<open>content\<close> is the body as
  bytes, \<open>resp_text\<close> the decoded body (\<open>response.text\<close>), and \<open>json_body\<close> what
  \<open>response.json()\<close> does: \<open>Inr\<close> the decoded value, or \<open>Inl\<close> the message of the
  exception it raises when the body is not JSON.
\<close>

record response =
  status_code :: int
  content :: string
  resp_text :: string
  json_body :: "string + pyval"

text \<open>What one call of \<open>requests.get\<close> does; the strings are \<open>str(e)\<close>.\<close>

datatype http_outcome =
    Responded response
  | RequestException string
  | OtherException string

text \<open>One sampler call: the clock before the request, the clock after it, the request.\<close>

record call =
  start_time :: real
  end_time :: real
  outcome :: http_outcome

subsection \<open>Floats\<close>

text \<open>
  Rounding a real to the nearest integer, a tie going to the even one.
\<close>

definition round_half_even :: "real \<Rightarrow> int" where
  "round_half_even y =
     (let f = \<lfloor>y\<rfloor>; d = y - of_int f
      in if d < 1 / 2 then f
         else if 1 / 2 < d then f + 1
         else if even f then f else f + 1)"

text \<open>
  \<open>expo x\<close> is the binary exponent of \<open>x \<noteq> 0\<close>: \<open>2 ^ expo x \<le> \<bar>x\<bar> < 2 ^ (expo x + 1)\<close>.
  A double has 53 significant bits and no bit below \<open>2 ^ - 1074\<close>, so the doubles around
  \<open>x\<close> are the multiples of \<open>2 ^ q\<close> for \<open>q = max (expo x - 52) (- 1074)\<close>, and \<open>fl x\<close>
  is the nearest of them, a tie going to the even mantissa: the result of every float
  operation is \<open>fl\<close> of its exact result. Overflow (a result of \<open>2 ^ 1024\<close> or more),
  infinities and not-a-number are outside the model.
\<close>

definition expo :: "real \<Rightarrow> int" where
  "expo x = (if 1 \<le> \<bar>x\<bar> then bitlen \<lfloor>\<bar>x\<bar>\<rfloor> - 1 else - bitlen (\<lceil>1 / \<bar>x\<bar>\<rceil> - 1))"

definition fl :: "real \<Rightarrow> real" where
  "fl x = (let q = max (expo x - 52) (- 1074)
           in of_int (round_half_even (x / 2 powi q)) * 2 powi q)"

text \<open>
  \<open>round(x, ndigits)\<close> of a float, for \<open>ndigits \<ge> 0\<close>: CPython rounds the exact value
  of \<open>x\<close> to that many decimals, a tie going to the even digit, and returns the double
  nearest to the decimal.
\<close>

definition py_round :: "real \<Rightarrow> nat \<Rightarrow> real" where
  "py_round x ndigits = fl (of_int (round_half_even (x * 10 ^ ndigits)) / 10 ^ ndigits)"

subsection \<open>Samples\<close>

text \<open>
  The dictionaries the samplers return have a fixed set of possible keys; a key that a
  dictionary does not have is \<open>None\<close> here. \<open>success\<close> is present in every one of them.
\<close>

record sample =
  rtype :: "string option"
  url :: "string option"
  cid :: "string option"
  status :: "int option"
  latency_ms :: "real option"
  size_bytes :: "pyval option"
  speed_mbps :: "pyval option"
  error :: "string option"
  success :: bool

definition empty_sample :: sample where
  "empty_sample =
     \<lparr>rtype = None, url = None, cid = None, status = None, latency_ms = None,
      size_bytes = None, speed_mbps = None, error = None, success = False\<rparr>"

text \<open>
  \<open>d.get(k, default)\<close> on what \<open>response.json()\<close> returned: only a dictionary has
  \<open>get\<close>, any other value raises \<open>AttributeError\<close>.
\<close>

fun type_name :: "pyval \<Rightarrow> string" where
  "type_name PNone = ''NoneType''"
| "type_name (PBool b) = ''bool''"
| "type_name (PInt i) = ''int''"
| "type_name (PFloat x) = ''float''"
| "type_name (PStr s) = ''str''"
| "type_name (PList vs) = ''list''"
| "type_name (PDict kvs) = ''dict''"

fun dict_get :: "pyval \<Rightarrow> string \<Rightarrow> pyval \<Rightarrow> pyexn + pyval" where
  "dict_get (PDict kvs) k dflt = Inr (case map_of kvs k of None \<Rightarrow> dflt | Some v \<Rightarrow> v)"
| "dict_get v k dflt =
     Inl (AttributeError ([CHR 0x27] @ type_name v @ [CHR 0x27] @
                          '' object has no attribute '' @ [CHR 0x27] @ ''get'' @ [CHR 0x27]))"

text \<open>\<open>str(e)\<close>; a \<open>KeyError\<close> shows its key in quotes.\<close>

fun str_exn :: "pyexn \<Rightarrow> string" where
  "str_exn (KeyError k) = [CHR 0x27] @ k @ [CHR 0x27]"
| "str_exn (TypeError m) = m"
| "str_exn (ValueError m) = m"
| "str_exn (AttributeError m) = m"
| "str_exn (StatisticsError m) = m"
| "str_exn (OtherError m) = m"

definition measure_latency :: "string \<Rightarrow> call \<Rightarrow> pyexn + sample" where
  "measure_latency u c =
     (case outcome c of
        Responded r \<Rightarrow>
          (let latency = fl (fl (end_time c - start_time c) * 1000)
           in Inr (empty_sample
                \<lparr>url := Some u,
                 status := Some (status_code r),
                 latency_ms := Some (py_round latency 2),
                 size_bytes := Some (PInt (int (length (content r)))),
                 success := True\<rparr>))
      | RequestException m \<Rightarrow>
          Inr (empty_sample \<lparr>url := Some u, error := Some m, success := False\<rparr>)
      | OtherException m \<Rightarrow> Inl (OtherError m))"

definition p2p_failure :: "string \<Rightarrow> sample" where
  "p2p_failure m = empty_sample \<lparr>rtype := Some ''P2P'', success := False, error := Some m\<rparr>"

definition measure_p2p_download :: "string \<Rightarrow> call \<Rightarrow> sample" where
  "measure_p2p_download c_id c =
     (case outcome c of
        Responded r \<Rightarrow>
          (if status_code r = 200 then
             (case json_body r of
                Inl m \<Rightarrow> p2p_failure m
              | Inr data \<Rightarrow>
                  (case dict_get data ''bytes'' (PInt 0) of
                     Inl e \<Rightarrow> p2p_failure (str_exn e)
                   | Inr b \<Rightarrow>
                       (case dict_get data ''speedMbps'' (PInt 0) of
                          Inl e \<Rightarrow> p2p_failure (str_exn e)
                        | Inr s \<Rightarrow>
                            empty_sample
                              \<lparr>rtype := Some ''P2P'',
                               cid := Some c_id,
                               latency_ms :=
                                 Some (py_round (fl (fl (end_time c - start_time c) * 1000)) 2),
                               size_bytes := Some b,
                               speed_mbps := Some s,
                               success := True\<rparr>)))
           else p2p_failure (resp_text r))
      | RequestException m \<Rightarrow> p2p_failure m
      | OtherException m \<Rightarrow> p2p_failure m)"

definition measure_centralized_download :: "string \<Rightarrow> call \<Rightarrow> sample" where
  "measure_centralized_download u c =
     (case outcome c of
        Responded r \<Rightarrow>
          (let duration = fl (end_time c - start_time c);
               size = int (length (content r));
               speed = (if 0 < duration
                        then PFloat (py_round
                               (fl (fl (fl (of_int (size * 8)) / duration) / 1000000)) 2)
                        else PInt 0)
           in empty_sample
                \<lparr>rtype := Some ''Centralized'',
                 url := Some u,
                 latency_ms := Some (py_round (fl (duration * 1000)) 2),
                 size_bytes := Some (PInt size),
                 speed_mbps := Some speed,
                 success := True\<rparr>)
      | RequestException m \<Rightarrow>
          empty_sample \<lparr>rtype := Some ''Centralized'', success := False, error := Some m\<rparr>
      | OtherException m \<Rightarrow>
          empty_sample \<lparr>rtype := Some ''Centralized'', success := False, error := Some m\<rparr>)"

subsection \<open>The \<open>statistics\<close> module, \<open>min\<close> and \<open>max\<close>\<close>

text \<open>
  Raising is a value: \<open>Inl\<close> carries the exception, and \<open>try_bind\<close> runs the rest of a
  block only when the step before it returned.
\<close>

definition try_bind :: "pyexn + 'a \<Rightarrow> ('a \<Rightarrow> pyexn + 'b) \<Rightarrow> pyexn + 'b" where
  "try_bind m f = (case m of Inl e \<Rightarrow> Inl e | Inr x \<Rightarrow> f x)"

text \<open>
  \<open>statistics.mean\<close> adds the data as exact fractions and converts the quotient to a
  float. \<open>statistics.stdev\<close> (CPython 3.11 and later) computes the sample variance of
  the exact data as a fraction and returns its correctly rounded square root.
\<close>

definition mean :: "real list \<Rightarrow> pyexn + real" where
  "mean xs = (if xs = [] then Inl (StatisticsError ''mean requires at least one data point'')
              else Inr (fl (sum_list xs / of_nat (length xs))))"

definition stdev :: "real list \<Rightarrow> pyexn + real" where
  "stdev xs =
     (if length xs < 2
      then Inl (StatisticsError ''stdev requires at least two data points'')
      else (let c = sum_list xs / of_nat (length xs);
                mss = sum_list (map (\<lambda>x. (x - c)\<^sup>2) xs) / of_nat (length xs - 1)
            in Inr (fl (sqrt mss))))"

fun py_min :: "real list \<Rightarrow> pyexn + real" where
  "py_min [] = Inl (ValueError ''min() arg is an empty sequence'')"
| "py_min (x # xs) = Inr (fold min xs x)"

fun py_max :: "real list \<Rightarrow> pyexn + real" where
  "py_max [] = Inl (ValueError ''max() arg is an empty sequence'')"
| "py_max (x # xs) = Inr (fold max xs x)"

subsection \<open>\<open>run_benchmark\<close>\<close>

record results =
  timestamp :: string
  p2p_results :: "sample list"
  centralized_results :: "sample list"
  summary :: "string \<rightharpoonup> (string \<rightharpoonup> pyval)"

text \<open>\<open>[r["latency_ms"] for r in rs if r["success"]]\<close>\<close>

fun latencies :: "sample list \<Rightarrow> pyexn + real list" where
  "latencies [] = Inr []"
| "latencies (r # rs) =
     (if success r then
        (case latency_ms r of
           None \<Rightarrow> Inl (KeyError ''latency_ms'')
         | Some x \<Rightarrow> try_bind (latencies rs) (\<lambda>xs. Inr (x # xs)))
      else latencies rs)"

text \<open>The dictionary of one retrieval kind's summary, built in the order of its keys.\<close>

definition summary_stats :: "real list \<Rightarrow> pyexn + (string \<rightharpoonup> pyval)" where
  "summary_stats ls =
     try_bind (mean ls) (\<lambda>avg.
     try_bind (py_min ls) (\<lambda>lo.
     try_bind (py_max ls) (\<lambda>hi.
     try_bind (if 1 < length ls
               then try_bind (stdev ls) (\<lambda>sd. Inr (PFloat (py_round sd 2)))
               else Inr (PInt 0)) (\<lambda>sd.
     Inr [''avg_latency_ms'' \<mapsto> PFloat (py_round avg 2),
          ''min_latency_ms'' \<mapsto> PFloat (py_round lo 2),
          ''max_latency_ms'' \<mapsto> PFloat (py_round hi 2),
          ''std_dev'' \<mapsto> sd]))))"

text \<open>
  The two sampling loops. The outside world is a function from the position of the target
  in its list and the iteration to what that sampler call meets.
\<close>

definition p2p_step :: "string \<Rightarrow> (nat \<Rightarrow> call) \<Rightarrow> nat \<Rightarrow> results \<Rightarrow> results" where
  "p2p_step c_id env i res =
     (let result = measure_p2p_download c_id (env i)
      in if success result then res\<lparr>p2p_results := p2p_results res @ [result]\<rparr> else res)"

definition centralized_step :: "string \<Rightarrow> (nat \<Rightarrow> call) \<Rightarrow> nat \<Rightarrow> results \<Rightarrow> results" where
  "centralized_step u env i res =
     (let result = measure_centralized_download u (env i)
      in if success result
         then res\<lparr>centralized_results := centralized_results res @ [result]\<rparr> else res)"

definition p2p_loop ::
  "string list \<Rightarrow> int \<Rightarrow> (nat \<Rightarrow> nat \<Rightarrow> call) \<Rightarrow> results \<Rightarrow> results" where
  "p2p_loop p2p_cids iterations env res =
     fold (\<lambda>(k, c_id). fold (p2p_step c_id (env k)) [0..<nat iterations])
       (enumerate 0 p2p_cids) res"

definition centralized_loop ::
  "string list \<Rightarrow> int \<Rightarrow> (nat \<Rightarrow> nat \<Rightarrow> call) \<Rightarrow> results \<Rightarrow> results" where
  "centralized_loop public_urls iterations env res =
     fold (\<lambda>(k, u). fold (centralized_step u (env k)) [0..<nat iterations])
       (enumerate 0 public_urls) res"

definition run_benchmark ::
  "string list \<Rightarrow> string list \<Rightarrow> int \<Rightarrow> string \<Rightarrow>
   (nat \<Rightarrow> nat \<Rightarrow> call) \<Rightarrow> (nat \<Rightarrow> nat \<Rightarrow> call) \<Rightarrow> pyexn + results" where
  "run_benchmark p2p_cids public_urls iterations now p2p_env central_env =
     (let res0 = \<lparr>timestamp = now, p2p_results = [], centralized_results = [],
                  summary = Map.empty\<rparr>;
          res1 = p2p_loop p2p_cids iterations p2p_env res0;
          res2 = centralized_loop public_urls iterations central_env res1
      in try_bind (latencies (p2p_results res2)) (\<lambda>p2p_latencies.
         try_bind (latencies (centralized_results res2)) (\<lambda>central_latencies.
         try_bind (if p2p_latencies \<noteq> []
                   then try_bind (summary_stats p2p_latencies)
                          (\<lambda>s. Inr (res2\<lparr>summary := (summary res2)(''p2p'' \<mapsto> s)\<rparr>))
                   else Inr res2) (\<lambda>res3.
         if central_latencies \<noteq> []
         then try_bind (summary_stats central_latencies)
                (\<lambda>s. Inr (res3\<lparr>summary := (summary res3)(''centralized'' \<mapsto> s)\<rparr>))
         else Inr res3))))"

subsection \<open>\<open>main\<close>\<close>

definition PUBLIC_TEST_URLS :: "string list" where
  "PUBLIC_TEST_URLS =
     [''https://raw.githubusercontent.com/nodejs/node/main/README.md'',
      ''https://raw.githubusercontent.com/facebook/react/main/README.md'']"

text \<open>
  The console as the sequence of things \<open>main\<close> reports (the wording of a line is not
  modelled): the banner with the two configured addresses, the three verdicts of the health
  check, the dashboard, and the lines of the demo run.
\<close>

datatype message =
    Banner
  | BackendOnline
  | BackendNon200
  | BackendOffline
  | Dashboard
  | DemoMode
  | TestingCentralized
  | TestingUrl string
  | IterationLine nat
  | SummaryLines
  | ResultsSaved
  | MonitoringComplete
  | GeneratingGraph

text \<open>
  What \<open>main\<close> meets: the health request, whether \<open>print_network_dashboard\<close> returns
  (\<open>None\<close>) or raises on the shape of what the backend sent, the clock for the timestamp,
  the six downloads, and whether matplotlib could be imported.
\<close>

record main_env =
  health :: http_outcome
  dashboard :: "pyexn option"
  now :: string
  downloads :: "nat \<Rightarrow> nat \<Rightarrow> call"
  HAS_MATPLOTLIB :: bool

text \<open>
  The state of the demo run while it samples, and what a whole run of \<open>main\<close> did.
  \<open>urls_sampled\<close> and \<open>sampled\<close> are not variables of the source: they list the
  argument of every call of \<open>measure_centralized_download\<close>, in order. \<open>saved_file\<close> is
  what \<open>json.dump\<close> wrote, \<open>graph_arg\<close> the document handed to
  \<open>generate_comparison_graph\<close>, and \<open>raised\<close> an exception that left \<open>main\<close>.
\<close>

record demo =
  lines :: "message list"
  urls_sampled :: "string list"
  doc :: results

record run =
  console :: "message list"
  sampled :: "string list"
  saved_file :: "results option"
  graph_arg :: "results option"
  raised :: "pyexn option"

definition main_step :: "string \<Rightarrow> (nat \<Rightarrow> call) \<Rightarrow> nat \<Rightarrow> demo \<Rightarrow> demo" where
  "main_step u env i st =
     (let result = measure_centralized_download u (env i);
          st1 = st\<lparr>urls_sampled := urls_sampled st @ [u]\<rparr>
      in if success result
         then st1\<lparr>doc := (doc st1)\<lparr>centralized_results :=
                                      centralized_results (doc st1) @ [result]\<rparr>,
                  lines := lines st1 @ [IterationLine (i + 1)]\<rparr>
         else st1)"

definition main_sampling :: "(nat \<Rightarrow> nat \<Rightarrow> call) \<Rightarrow> demo \<Rightarrow> demo" where
  "main_sampling env st =
     fold (\<lambda>(k, u) st. fold (main_step u (env k)) [0..<3]
                          (st\<lparr>lines := lines st @ [TestingUrl (take 50 u)]\<rparr>))
       (enumerate 0 PUBLIC_TEST_URLS) st"

definition main_summary :: "demo \<Rightarrow> pyexn + demo" where
  "main_summary st =
     try_bind (latencies (centralized_results (doc st))) (\<lambda>ls.
     if ls \<noteq> [] then
       try_bind (mean ls) (\<lambda>avg.
       try_bind (py_min ls) (\<lambda>lo.
       try_bind (py_max ls) (\<lambda>hi.
       Inr (st\<lparr>doc := (doc st)\<lparr>summary := (summary (doc st))(''centralized'' \<mapsto>
                    [''avg_latency_ms'' \<mapsto> PFloat (py_round avg 2),
                     ''min_latency_ms'' \<mapsto> PFloat (py_round lo 2),
                     ''max_latency_ms'' \<mapsto> PFloat (py_round hi 2)])\<rparr>,
               lines := lines st @ [SummaryLines]\<rparr>))))
     else Inr st)"

text \<open>\<open>d[k] * c\<close> for a float \<open>c\<close>; an integer is converted to a float first.\<close>

definition field_times :: "(string \<rightharpoonup> pyval) \<Rightarrow> string \<Rightarrow> real \<Rightarrow> pyexn + real" where
  "field_times d k c =
     (case d k of
        None \<Rightarrow> Inl (KeyError k)
      | Some (PFloat x) \<Rightarrow> Inr (fl (x * c))
      | Some (PInt i) \<Rightarrow> Inr (fl (fl (of_int i) * c))
      | Some (PBool b) \<Rightarrow> Inr (fl ((if b then 1 else 0) * c))
      | Some v \<Rightarrow> Inl (TypeError ''unsupported operand type(s) for *''))"

text \<open>
  The mock P2P data made for the chart (the block under the matplotlib check). The
  literals \<open>0.3\<close>, \<open>0.2\<close> and \<open>0.4\<close> are the doubles nearest to them.
\<close>

definition demo_p2p :: "results \<Rightarrow> pyexn + results" where
  "demo_p2p d =
     (case summary d ''centralized'' of
        None \<Rightarrow> Inl (KeyError ''centralized'')
      | Some c \<Rightarrow>
          try_bind (field_times c ''avg_latency_ms'' (fl 0.3)) (\<lambda>a.
          try_bind (field_times c ''min_latency_ms'' (fl 0.2)) (\<lambda>lo.
          try_bind (field_times c ''max_latency_ms'' (fl 0.4)) (\<lambda>hi.
          Inr (d\<lparr>summary := (summary d)(''p2p'' \<mapsto>
                     [''avg_latency_ms'' \<mapsto> PFloat a,
                      ''min_latency_ms'' \<mapsto> PFloat lo,
                      ''max_latency_ms'' \<mapsto> PFloat hi]),
                 p2p_results :=
                   map (\<lambda>i. empty_sample\<lparr>success := True,
                                           latency_ms := Some (fl (a + of_int (i * 5)))\<rparr>)
                     [-2..2]\<rparr>)))))"

text \<open>A run that ends without a chart: an early return, an exception, or no chart to draw.\<close>

definition stopped :: "message list \<Rightarrow> string list \<Rightarrow> results option \<Rightarrow> pyexn option \<Rightarrow> run" where
  "stopped out urls file e =
     \<lparr>console = out, sampled = urls, saved_file = file, graph_arg = None, raised = e\<rparr>"

text \<open>
  \<open>main\<close> in three parts, in the order of the source: the health check and the
  dashboard (\<open>main\<close> itself), the demo run with its summary (\<open>demo_run\<close>, from the
  "Demo Mode" lines on; its argument is the console so far), and saving the results and
  preparing the chart (\<open>save_and_graph\<close>).
\<close>

definition save_and_graph :: "main_env \<Rightarrow> demo \<Rightarrow> run" where
  "save_and_graph env st =
     (let file = doc st;
          out = lines st @ [ResultsSaved, MonitoringComplete]
      in if HAS_MATPLOTLIB env \<and> centralized_results (doc st) \<noteq> []
         then (case demo_p2p (doc st) of
                 Inl e \<Rightarrow>
                   stopped (out @ [GeneratingGraph]) (urls_sampled st) (Some file) (Some e)
               | Inr d \<Rightarrow>
                   \<lparr>console = out @ [GeneratingGraph],
                    sampled = urls_sampled st,
                    saved_file = Some file,
                    graph_arg = Some d,
                    raised = None\<rparr>)
         else stopped out (urls_sampled st) (Some file) None)"

definition demo_run :: "main_env \<Rightarrow> message list \<Rightarrow> run" where
  "demo_run env out =
     (let st0 = \<lparr>lines = out @ [DemoMode, TestingCentralized],
                 urls_sampled = [],
                 doc = \<lparr>timestamp = now env, p2p_results = [],
                        centralized_results = [], summary = Map.empty\<rparr>\<rparr>;
          st1 = main_sampling (downloads env) st0
      in case main_summary st1 of
           Inl e \<Rightarrow> stopped (lines st1) (urls_sampled st1) None (Some e)
         | Inr st2 \<Rightarrow> save_and_graph env st2)"

definition main :: "main_env \<Rightarrow> run" where
  "main env =
     (case health env of
        RequestException m \<Rightarrow> stopped [Banner, BackendOffline] [] None None
      | OtherException m \<Rightarrow> stopped [Banner] [] None (Some (OtherError m))
      | Responded r \<Rightarrow>
          (let verdict = (if status_code r = 200 then BackendOnline else BackendNon200)
           in case dashboard env of
                Some e \<Rightarrow> stopped [Banner, verdict, Dashboard] [] None (Some e)
              | None \<Rightarrow> demo_run env [Banner, verdict, Dashboard]))"

subsection \<open>Every sampler call of a run, in the order the loops make them\<close>

text \<open>
  These two lists are not in the source: they name what the sampling loops of
  \<open>run_benchmark\<close> get back from the samplers, kept or not, so that the theorems can
  say which of them are kept.
\<close>

definition all_p2p_samples :: "string list \<Rightarrow> int \<Rightarrow> (nat \<Rightarrow> nat \<Rightarrow> call) \<Rightarrow> sample list" where
  "all_p2p_samples p2p_cids iterations env =
     concat (map (\<lambda>(k, c_id). map (\<lambda>i. measure_p2p_download c_id (env k i)) [0..<nat iterations])
                 (enumerate 0 p2p_cids))"

definition all_centralized_samples ::
  "string list \<Rightarrow> int \<Rightarrow> (nat \<Rightarrow> nat \<Rightarrow> call) \<Rightarrow> sample list" where
  "all_centralized_samples public_urls iterations env =
     concat (map (\<lambda>(k, u). map (\<lambda>i. measure_centralized_download u (env k i))
                                 [0..<nat iterations])
                 (enumerate 0 public_urls))"

text \<open>
  The progress lines of the demo run: for each URL its heading, then one line for each
  iteration that succeeded.
\<close>

definition progress_lines :: "(nat \<Rightarrow> nat \<Rightarrow> call) \<Rightarrow> message list" where
  "progress_lines env =
     concat (map (\<lambda>(k, u). TestingUrl (take 50 u) #
                   map (\<lambda>i. IterationLine (i + 1))
                     (filter (\<lambda>i. success (measure_centralized_download u (env k i))) [0..<3]))
                 (enumerate 0 PUBLIC_TEST_URLS))"

subsection \<open>Concrete responses and calls\<close>

text \<open>
  Responses: a 500 with an empty body, a 404, a 200 whose JSON reports \<open>-1\<close> bytes, a
  200 with a body of 125000 bytes, a 200 with a body of 1875 bytes, and a 200 with a
  well-formed benchmark report. Calls: one that takes half a second, one that takes a
  second, one whose two clock readings are equal, and one during which the clock is set
  back by a second.
\<close>

definition empty_body_500 :: response where
  "empty_body_500 =
     \<lparr>status_code = 500, content = [], resp_text = [], json_body = Inl ''Expecting value''\<rparr>"

definition not_found_404 :: response where
  "not_found_404 = \<lparr>status_code = 404, content = ''Not Found'', resp_text = ''Not Found'',
                      json_body = Inl ''Expecting value''\<rparr>"

definition negative_bytes_200 :: response where
  "negative_bytes_200 =
     \<lparr>status_code = 200, content = ''{\"bytes\": -1}'', resp_text = ''{\"bytes\": -1}'',
      json_body = Inr (PDict [(''bytes'', PInt (- 1))])\<rparr>"

definition megabit_200 :: response where
  "megabit_200 =
     \<lparr>status_code = 200, content = replicate 125000 (CHR ''x''),
      resp_text = replicate 125000 (CHR ''x''), json_body = Inl ''Expecting value''\<rparr>"

definition small_body_200 :: response where
  "small_body_200 =
     \<lparr>status_code = 200, content = replicate 1875 (CHR ''x''),
      resp_text = replicate 1875 (CHR ''x''), json_body = Inl ''Expecting value''\<rparr>"

definition same_instant :: "http_outcome \<Rightarrow> call" where
  "same_instant out = \<lparr>start_time = 10, end_time = 10, outcome = out\<rparr>"

definition clock_set_back :: "http_outcome \<Rightarrow> call" where
  "clock_set_back out = \<lparr>start_time = 10, end_time = 9, outcome = out\<rparr>"

definition report_200 :: response where
  "report_200 =
     \<lparr>status_code = 200, content = ''{}'', resp_text = ''{}'',
      json_body = Inr (PDict [(''bytes'', PInt 2048), (''speedMbps'', PFloat 1.5)])\<rparr>"

definition half_second :: "http_outcome \<Rightarrow> call" where
  "half_second out = \<lparr>start_time = 10, end_time = 10.5, outcome = out\<rparr>"

definition one_second :: "http_outcome \<Rightarrow> call" where
  "one_second out = \<lparr>start_time = 10, end_time = 11, outcome = out\<rparr>"

subsection \<open>The statistics the specification names\<close>

text \<open>
  Written from the words of the specification, to be compared with what the code
  computes: the arithmetic mean, the sample standard deviation (divisor \<open>n - 1\<close>) and the
  population standard deviation (divisor \<open>n\<close>) of a list of latencies, as real numbers.
\<close>

definition arithmetic_mean :: "real list \<Rightarrow> real" where
  "arithmetic_mean D = sum_list D / of_nat (length D)"

definition sample_std_dev :: "real list \<Rightarrow> real" where
  "sample_std_dev D =
     sqrt (sum_list (map (\<lambda>d. (d - arithmetic_mean D)\<^sup>2) D) / of_nat (length D - 1))"

definition population_std_dev :: "real list \<Rightarrow> real" where
  "population_std_dev D =
     sqrt (sum_list (map (\<lambda>d. (d - arithmetic_mean D)\<^sup>2) D) / of_nat (length D))"


text \<open>Reading one figure of a summary, and the recorded centralized latencies, off a run.\<close>

definition summary_field :: "pyexn + results \<Rightarrow> string \<Rightarrow> string \<Rightarrow> pyval option" where
  "summary_field out kind key =
     (case out of
        Inl e \<Rightarrow> None
      | Inr res \<Rightarrow> (case summary res kind of None \<Rightarrow> None | Some s \<Rightarrow> s key))"

definition kept_latencies_of :: "pyexn + results \<Rightarrow> real option list" where
  "kept_latencies_of out =
     (case out of Inl e \<Rightarrow> [] | Inr res \<Rightarrow> map latency_ms (centralized_results res))"

subsection \<open>Concrete runs\<close>

text \<open>
  Outside worlds for \<open>run_benchmark\<close>, with clock readings that are doubles: the second
  iteration of every target times out; every request takes just under a tenth of a second
  and is recorded as 100.0 ms; iteration \<open>i\<close> (from 0) is recorded as \<open>i\<close> ms; the first
  two iterations are recorded as 0.01 and 0.02 ms; the fourth iteration is recorded as
  100.01 ms and the others as 100.0 ms.
\<close>

definition flaky_env :: "nat \<Rightarrow> nat \<Rightarrow> call" where
  "flaky_env k i =
     \<lparr>start_time = 0, end_time = 13107 / 131072,
      outcome = (if i = 1 then RequestException ''Read timed out'' else Responded report_200)\<rparr>"

definition steady_env :: "nat \<Rightarrow> nat \<Rightarrow> call" where
  "steady_env k i =
     \<lparr>start_time = 0, end_time = 13107 / 131072, outcome = Responded report_200\<rparr>"

definition ramp_env :: "nat \<Rightarrow> nat \<Rightarrow> call" where
  "ramp_env k i =
     \<lparr>start_time = 0, end_time = of_nat (1049 * i) / 1048576,
      outcome = Responded report_200\<rparr>"


definition outlier_env :: "nat \<Rightarrow> nat \<Rightarrow> call" where
  "outlier_env k i =
     \<lparr>start_time = 0, end_time = (if i = 3 then 13108 else 13107) / 131072,
      outcome = Responded report_200\<rparr>"

text \<open>
  Five outside worlds for \<open>main\<close>: the backend answers the health check with a 500;
  the backend cannot be reached; the backend is healthy and matplotlib is installed; the
  health request raises an exception that is not a \<open>requests.RequestException\<close>; the
  backend is healthy and \<open>print_network_dashboard\<close> raises.
\<close>

definition unhealthy_env :: main_env where
  "unhealthy_env =
     \<lparr>health = Responded empty_body_500, dashboard = None, now = ''2024-01-01T00:00:00'',
      downloads = steady_env, HAS_MATPLOTLIB = False\<rparr>"

definition offline_env :: main_env where
  "offline_env =
     \<lparr>health = RequestException ''Connection refused'', dashboard = None,
      now = ''2024-01-01T00:00:00'', downloads = steady_env, HAS_MATPLOTLIB = True\<rparr>"

definition chart_env :: main_env where
  "chart_env =
     \<lparr>health = Responded report_200, dashboard = None, now = ''2024-01-01T00:00:00'',
      downloads = steady_env, HAS_MATPLOTLIB = True\<rparr>"

definition probe_error_env :: main_env where
  "probe_error_env =
     \<lparr>health = OtherException ''Invalid IPv6 URL'', dashboard = None,
      now = ''2024-01-01T00:00:00'', downloads = steady_env, HAS_MATPLOTLIB = True\<rparr>"

definition dashboard_error_env :: main_env where
  "dashboard_error_env =
     \<lparr>health = Responded report_200,
      dashboard = Some (AttributeError ''list object has no attribute get''),
      now = ''2024-01-01T00:00:00'', downloads = steady_env, HAS_MATPLOTLIB = True\<rparr>"

section \<open>Properties\<close>

subsection \<open>Floats and rounding\<close>

lemma expo_bounds:
  assumes "x \<noteq> 0"
  shows "2 powi expo x \<le> \<bar>x\<bar>" and "\<bar>x\<bar> < 2 powi (expo x + 1)"
proof -
  have both: "2 powi expo x \<le> \<bar>x\<bar> \<and> \<bar>x\<bar> < 2 powi (expo x + 1)"
  proof (cases "1 \<le> \<bar>x\<bar>")
    case True
    define n where "n = \<lfloor>\<bar>x\<bar>\<rfloor>"
    have n: "0 < n" using True by (simp add: n_def)
    have e: "expo x = bitlen n - 1" using True by (simp add: expo_def n_def)
    have b1: "1 \<le> bitlen n" using n by (simp add: bitlen_alt_def)
    from bitlen_bounds [OF n]
    have lo: "(2::int) ^ nat (bitlen n - 1) \<le> n" and hi: "n < 2 ^ nat (bitlen n)" by auto
    have "2 powi (bitlen n - 1) = (2::real) ^ nat (bitlen n - 1)"
      using b1 by (simp add: power_int_def)
    also have "\<dots> = of_int (2 ^ nat (bitlen n - 1))" by simp
    also have "\<dots> \<le> of_int n" using lo by (simp only: of_int_le_iff)
    also have "\<dots> \<le> \<bar>x\<bar>" by (simp add: n_def)
    finally have 1: "2 powi expo x \<le> \<bar>x\<bar>" by (simp add: e)
    have "n + 1 \<le> 2 ^ nat (bitlen n)" using hi by simp
    then have "of_int (n + 1) \<le> (of_int (2 ^ nat (bitlen n)) :: real)"
      by (simp only: of_int_le_iff)
    moreover have "\<bar>x\<bar> < of_int (n + 1)" by (simp add: n_def)
    ultimately have "\<bar>x\<bar> < 2 ^ nat (bitlen n)" by simp
    also have "\<dots> = 2 powi (bitlen n)" using b1 by (simp add: power_int_def)
    finally have 2: "\<bar>x\<bar> < 2 powi (expo x + 1)" by (simp add: e)
    from 1 2 show ?thesis ..
  next
    case False
    define y where "y = 1 / \<bar>x\<bar>"
    have x: "0 < \<bar>x\<bar>" "\<bar>x\<bar> < 1" using assms False by auto
    then have y: "1 < y" by (simp add: y_def)
    define m where "m = \<lceil>y\<rceil> - 1"
    have m: "0 < m" using y by (simp add: m_def)
    have e: "expo x = - bitlen m" using False by (simp add: expo_def m_def y_def)
    have b1: "1 \<le> bitlen m" using m by (simp add: bitlen_alt_def)
    from bitlen_bounds [OF m]
    have lo: "(2::int) ^ nat (bitlen m - 1) \<le> m" and hi: "m < 2 ^ nat (bitlen m)" by auto
    have "y \<le> of_int (m + 1)" by (simp add: m_def)
    also have "\<dots> \<le> of_int (2 ^ nat (bitlen m))" using hi by (simp only: of_int_le_iff)
    also have "\<dots> = 2 powi (bitlen m)" using b1 by (simp add: power_int_def)
    finally have "1 / \<bar>x\<bar> \<le> 2 powi (bitlen m)" by (simp add: y_def)
    then have "1 \<le> 2 powi (bitlen m) * \<bar>x\<bar>" using x by (simp add: field_simps)
    then have 1: "2 powi expo x \<le> \<bar>x\<bar>"
      by (simp add: e power_int_minus field_simps)
    have "(2::real) powi (bitlen m - 1) = of_int (2 ^ nat (bitlen m - 1))"
      using b1 by (simp add: power_int_def)
    also have "\<dots> \<le> of_int m" using lo by (simp only: of_int_le_iff)
    also have "\<dots> < y" by (simp add: m_def) linarith
    finally have "2 powi (bitlen m - 1) < 1 / \<bar>x\<bar>" by (simp add: y_def)
    then have "\<bar>x\<bar> < 1 / 2 powi (bitlen m - 1)"
      using x by (simp add: field_simps)
    also have "\<dots> = (2::real) powi (1 - bitlen m)"
      using power_int_minus_divide [of "2::real" "bitlen m - 1"] by simp
    finally have 2: "\<bar>x\<bar> < 2 powi (expo x + 1)"
      by (simp add: e)
    from 1 2 show ?thesis ..
  qed
  from both show "2 powi expo x \<le> \<bar>x\<bar>" and "\<bar>x\<bar> < 2 powi (expo x + 1)" by auto
qed

lemma pow2_less_cancel: "(2::real) powi a < 2 powi b \<Longrightarrow> a < b"
  using power_int_increasing [of b a "2::real"] by (cases "a < b") auto

lemma expo_eqI:
  assumes "2 powi e \<le> \<bar>x\<bar>" and "\<bar>x\<bar> < 2 powi (e + 1)"
  shows "expo x = e"
proof -
  have "0 < (2::real) powi e" by simp
  with assms(1) have "0 < \<bar>x\<bar>" by linarith
  then have x: "x \<noteq> 0" by simp
  note b = expo_bounds [OF x]
  have "(2::real) powi e < 2 powi (expo x + 1)" using assms(1) b(2) by linarith
  then have 1: "e < expo x + 1"
    by (rule pow2_less_cancel)
  have "(2::real) powi expo x < 2 powi (e + 1)" using assms(2) b(1) by linarith
  then have 2: "expo x < e + 1"
    by (rule pow2_less_cancel)
  from 1 2 show ?thesis by simp
qed

lemma fl_zero [simp]: "fl 0 = 0"
  by (simp add: fl_def round_half_even_def)

lemma round_half_even_of_int: "round_half_even (of_int k) = k"
  by (simp add: round_half_even_def)

lemma round_half_even_nonneg: "0 \<le> y \<Longrightarrow> 0 \<le> round_half_even y"
  unfolding round_half_even_def Let_def by auto

lemma round_half_even_error: "\<bar>of_int (round_half_even y) - y\<bar> \<le> 1 / 2"
  unfolding round_half_even_def Let_def by (auto; linarith)

lemma round_half_even_near:
  assumes "of_int k - 1 / 2 < y" and "y < of_int k + 1 / 2"
  shows "round_half_even y = k"
proof -
  have "k - 1 \<le> \<lfloor>y\<rfloor>" using assms(1) by linarith
  moreover have "\<lfloor>y\<rfloor> \<le> k" using assms(2) by linarith
  ultimately consider "\<lfloor>y\<rfloor> = k - 1" | "\<lfloor>y\<rfloor> = k" by linarith
  then show ?thesis
  proof cases
    case 1
    then show ?thesis using assms by (simp add: round_half_even_def Let_def)
  next
    case 2
    then show ?thesis using assms by (simp add: round_half_even_def Let_def)
  qed
qed

lemma fl_nonneg: "0 \<le> x \<Longrightarrow> 0 \<le> fl x"
  by (simp add: fl_def Let_def round_half_even_nonneg)

lemma fl_eqI:
  assumes "2 powi e \<le> \<bar>x\<bar>" and "\<bar>x\<bar> < 2 powi (e + 1)"
    and "q = max (e - 52) (- 1074)"
    and "round_half_even (x / 2 powi q) = m"
  shows "fl x = of_int m * 2 powi q"
  using expo_eqI [OF assms(1,2)] assms(3,4) by (simp add: fl_def Let_def)

lemma fl_error:
  "\<bar>fl x - x\<bar> \<le> \<bar>x\<bar> / 2 ^ 53 + 1 / 2 ^ 1075"
proof (cases "x = 0")
  case True
  then show ?thesis by simp
next
  case False
  define q where "q = max (expo x - 52) (- 1074)"
  define P where "P = (2::real) powi q"
  have P: "0 < P" by (simp add: P_def)
  have "fl x - x = (of_int (round_half_even (x / P)) - x / P) * P"
    using P by (simp add: fl_def Let_def q_def P_def field_simps)
  then have "\<bar>fl x - x\<bar> = \<bar>of_int (round_half_even (x / P)) - x / P\<bar> * P"
    using P by (simp add: abs_mult)
  also have "\<dots> \<le> 1 / 2 * P"
    using round_half_even_error [of "x / P"] P by (intro mult_right_mono) simp_all
  finally have err: "\<bar>fl x - x\<bar> \<le> P / 2" by simp
  show ?thesis
  proof (cases "- 1074 \<le> expo x - 52")
    case True
    then have "P = 2 powi expo x / 2 ^ 52"
      by (simp add: P_def q_def power_int_diff)
    also have "\<dots> \<le> \<bar>x\<bar> / 2 ^ 52"
      using expo_bounds(1) [OF False] by (simp add: divide_right_mono)
    finally have "P / 2 \<le> \<bar>x\<bar> / 2 ^ 53" by simp
    with err show ?thesis by simp
  next
    case False
    then have "P = 2 powi (- 1074)" by (simp add: P_def q_def max_def)
    then have "P / 2 = 1 / 2 ^ 1075"
      by (simp add: power_int_minus_divide)
    with err have "\<bar>fl x - x\<bar> \<le> 1 / 2 ^ 1075" by simp
    moreover have "0 \<le> \<bar>x\<bar> / 2 ^ 53" by simp
    ultimately show ?thesis by linarith
  qed
qed

lemma fl_close: "\<bar>fl x - x\<bar> \<le> \<bar>x\<bar> / 2 ^ 53 + 1 / 2 ^ 10"
proof -
  have "(1::real) / 2 ^ 1075 \<le> 1 / 2 ^ 10"
    by (intro divide_left_mono power_increasing) simp_all
  with fl_error [of x] show ?thesis by linarith
qed

lemma fl_close_unit:
  assumes "\<bar>x\<bar> \<le> 1"
  shows "\<bar>fl x - x\<bar> \<le> 1 / 512"
proof -
  have "\<bar>x\<bar> / 2 ^ 53 \<le> 1 / 2 ^ 53" using assms by (simp add: divide_right_mono)
  also have "\<dots> \<le> (1::real) / 2 ^ 10"
    by (intro divide_left_mono power_increasing) simp_all
  finally have "\<bar>x\<bar> / 2 ^ 53 \<le> 1 / 2 ^ 10" .
  with fl_close [of x] show ?thesis by simp
qed

lemma fl_dyadic:
  assumes "\<bar>m\<bar> < 2 ^ 53" and "j \<le> 1074"
  shows "fl (of_int m / 2 ^ j) = of_int m / 2 ^ j"
proof (cases "m = 0")
  case True
  then show ?thesis by simp
next
  case False
  define x where "x = (of_int m / 2 ^ j :: real)"
  have x0: "x \<noteq> 0" using False by (simp add: x_def)
  define q where "q = max (expo x - 52) (- 1074)"
  have "2 powi expo x \<le> \<bar>x\<bar>" by (rule expo_bounds(1) [OF x0])
  also have "\<bar>x\<bar> = \<bar>of_int m\<bar> / 2 ^ j" by (simp add: x_def)
  also have "\<dots> < 2 ^ 53 / 2 ^ j"
  proof -
    have "\<bar>of_int m :: real\<bar> < 2 ^ 53"
      using assms(1) by (metis of_int_abs of_int_less_numeral_power_cancel_iff)
    then show ?thesis by (simp add: divide_strict_right_mono)
  qed
  also have "\<dots> = 2 powi (53 - int j)"
    by (simp add: power_int_diff)
  finally have "expo x < 53 - int j"
    by (rule pow2_less_cancel)
  then have qj: "q \<le> - int j" using assms(2) by (simp add: q_def)
  define d where "d = nat (- int j - q)"
  have "x / 2 powi q = of_int m * 2 powi (- int j - q)"
    by (simp add: x_def power_int_diff power_int_minus_divide field_simps)
  also have "\<dots> = of_int (m * 2 ^ d)"
    using qj by (simp add: d_def power_int_def)
  finally have "round_half_even (x / 2 powi q) = m * 2 ^ d"
    by (simp only: round_half_even_of_int)
  then have "fl x = of_int (m * 2 ^ d) * 2 powi q"
    by (simp add: fl_def Let_def q_def)
  also have "\<dots> = of_int m * (2 powi (- int j - q) * 2 powi q)"
    using qj by (simp add: d_def power_int_def)
  also have "2 powi (- int j - q) * 2 powi q = (2::real) powi (- int j)"
    by (simp flip: power_int_add)
  finally show ?thesis
    by (simp add: x_def power_int_minus_divide)
qed

lemma fl_of_int: "\<bar>m\<bar> < 2 ^ 53 \<Longrightarrow> fl (of_int m) = of_int m"
  using fl_dyadic [of m 0] by simp

lemma py_round_nonneg: "0 \<le> x \<Longrightarrow> 0 \<le> py_round x n"
  by (simp add: py_round_def fl_nonneg round_half_even_nonneg)

lemma py_round_eqI: "round_half_even (x * 100) = k \<Longrightarrow> py_round x 2 = fl (of_int k / 100)"
  by (simp add: py_round_def)

lemma py_round_of_int:
  assumes "\<bar>n\<bar> < 2 ^ 53"
  shows "py_round (of_int n) 2 = of_int n"
proof -
  have "round_half_even (of_int n * 100) = n * 100"
    using round_half_even_of_int [of "n * 100"] by simp
  then show ?thesis
    using fl_of_int [OF assms] by (simp add: py_round_def)
qed








subsection \<open>The sampling loops, the latency lists and the summary\<close>

lemma p2p_success_latency:
  "success (measure_p2p_download c_id c) \<Longrightarrow>
   latency_ms (measure_p2p_download c_id c) =
     Some (py_round (fl (fl (end_time c - start_time c) * 1000)) 2)"
  by (auto simp: measure_p2p_download_def p2p_failure_def empty_sample_def
           split: http_outcome.splits sum.splits if_splits)

lemma centralized_success_latency:
  "success (measure_centralized_download u c) \<Longrightarrow>
   latency_ms (measure_centralized_download u c) =
     Some (py_round (fl (fl (end_time c - start_time c) * 1000)) 2)"
  by (auto simp: measure_centralized_download_def empty_sample_def Let_def
           split: http_outcome.splits)

lemma fold_p2p_step:
  "fold (p2p_step c_id env) js res =
     res\<lparr>p2p_results := p2p_results res @
            filter success (map (\<lambda>i. measure_p2p_download c_id (env i)) js)\<rparr>"
  by (induction js arbitrary: res) (simp_all add: p2p_step_def Let_def)

lemma fold_centralized_step:
  "fold (centralized_step u env) js res =
     res\<lparr>centralized_results := centralized_results res @
            filter success (map (\<lambda>i. measure_centralized_download u (env i)) js)\<rparr>"
  by (induction js arbitrary: res) (simp_all add: centralized_step_def Let_def)

lemma fold_p2p_targets:
  "fold (\<lambda>(k, c_id). fold (p2p_step c_id (env k)) js) (enumerate n cs) res =
     res\<lparr>p2p_results := p2p_results res @
            filter success
              (concat (map (\<lambda>(k, c_id). map (\<lambda>i. measure_p2p_download c_id (env k i)) js)
                           (enumerate n cs)))\<rparr>"
  by (induction cs arbitrary: res n) (simp_all add: fold_p2p_step)

lemma fold_centralized_targets:
  "fold (\<lambda>(k, u). fold (centralized_step u (env k)) js) (enumerate n us) res =
     res\<lparr>centralized_results := centralized_results res @
            filter success
              (concat (map (\<lambda>(k, u). map (\<lambda>i. measure_centralized_download u (env k i)) js)
                           (enumerate n us)))\<rparr>"
  by (induction us arbitrary: res n) (simp_all add: fold_centralized_step)

lemma p2p_loop_eq:
  "p2p_loop cs its env res =
     res\<lparr>p2p_results := p2p_results res @ filter success (all_p2p_samples cs its env)\<rparr>"
  by (simp add: p2p_loop_def all_p2p_samples_def fold_p2p_targets)

lemma centralized_loop_eq:
  "centralized_loop us its env res =
     res\<lparr>centralized_results :=
           centralized_results res @ filter success (all_centralized_samples us its env)\<rparr>"
  by (simp add: centralized_loop_def all_centralized_samples_def fold_centralized_targets)

lemma latencies_all_success:
  "\<forall>r \<in> set rs. success r \<Longrightarrow> map latency_ms rs = map Some ls \<Longrightarrow> latencies rs = Inr ls"
  by (induction rs arbitrary: ls) (auto simp: try_bind_def)

lemma kept_latencies:
  assumes "\<forall>r \<in> set rs. success r \<longrightarrow> (\<exists>y. latency_ms r = Some (py_round y 2))"
  shows "\<exists>ls. map latency_ms (filter success rs) = map Some ls \<and>
              (\<forall>x \<in> set ls. \<exists>y. x = py_round y 2)"
  using assms
proof (induction rs)
  case Nil
  then show ?case by simp
next
  case (Cons r rs)
  then obtain ls where ls: "map latency_ms (filter success rs) = map Some ls"
    "\<forall>x \<in> set ls. \<exists>y. x = py_round y 2" by auto
  show ?case
  proof (cases "success r")
    case True
    with Cons.prems obtain y where "latency_ms r = Some (py_round y 2)" by auto
    with ls True have "map latency_ms (filter success (r # rs)) = map Some (py_round y 2 # ls)
        \<and> (\<forall>x \<in> set (py_round y 2 # ls). \<exists>y. x = py_round y 2)"
      by auto
    then show ?thesis by blast
  next
    case False
    with ls show ?thesis by auto
  qed
qed

lemma p2p_kept_latencies:
  "\<exists>ls. map latency_ms (filter success (all_p2p_samples cs its env)) = map Some ls \<and>
        (\<forall>x \<in> set ls. \<exists>y. x = py_round y 2)"
  by (rule kept_latencies) (auto simp: all_p2p_samples_def p2p_success_latency)

lemma centralized_kept_latencies:
  "\<exists>ls. map latency_ms (filter success (all_centralized_samples us its env)) = map Some ls \<and>
        (\<forall>x \<in> set ls. \<exists>y. x = py_round y 2)"
  by (rule kept_latencies) (auto simp: all_centralized_samples_def centralized_success_latency)

lemma py_min_eq: "ls \<noteq> [] \<Longrightarrow> py_min ls = Inr (Min (set ls))"
  by (cases ls) (simp_all del: set_simps add: Min.set_eq_fold)

lemma py_max_eq: "ls \<noteq> [] \<Longrightarrow> py_max ls = Inr (Max (set ls))"
  by (cases ls) (simp_all del: set_simps add: Max.set_eq_fold)

lemma summary_stats_eq:
  assumes "ls \<noteq> []"
  shows "summary_stats ls =
     Inr [''avg_latency_ms'' \<mapsto> PFloat (py_round (fl (sum_list ls / of_nat (length ls))) 2),
          ''min_latency_ms'' \<mapsto> PFloat (py_round (Min (set ls)) 2),
          ''max_latency_ms'' \<mapsto> PFloat (py_round (Max (set ls)) 2),
          ''std_dev'' \<mapsto>
             (if 1 < length ls
              then PFloat (py_round (fl (sqrt (sum_list (map (\<lambda>x. (x - sum_list ls / of_nat (length ls))\<^sup>2) ls)
                                               / of_nat (length ls - 1)))) 2)
              else PInt 0)]"
  using assms
  by (simp add: summary_stats_def try_bind_def mean_def py_min_eq py_max_eq stdev_def Let_def)

lemma summary_stats_total: "ls \<noteq> [] \<Longrightarrow> \<exists>s. summary_stats ls = Inr s"
  by (simp add: summary_stats_eq)


lemma run_benchmark_eq:
  assumes "map latency_ms (filter success (all_p2p_samples cs its pe)) = map Some lp"
    and "map latency_ms (filter success (all_centralized_samples us its ce)) = map Some lc"
    and "lp \<noteq> [] \<Longrightarrow> summary_stats lp = Inr sp"
    and "lc \<noteq> [] \<Longrightarrow> summary_stats lc = Inr sc"
  shows "run_benchmark cs us its t pe ce =
     Inr \<lparr>timestamp = t,
          p2p_results = filter success (all_p2p_samples cs its pe),
          centralized_results = filter success (all_centralized_samples us its ce),
          summary = (\<lambda>k. if k = ''centralized'' \<and> lc \<noteq> [] then Some sc
                          else if k = ''p2p'' \<and> lp \<noteq> [] then Some sp else None)\<rparr>"
proof -
  have lp: "latencies (filter success (all_p2p_samples cs its pe)) = Inr lp"
    by (rule latencies_all_success) (simp_all add: assms(1))
  have lc: "latencies (filter success (all_centralized_samples us its ce)) = Inr lc"
    by (rule latencies_all_success) (simp_all add: assms(2))
  show ?thesis
    unfolding run_benchmark_def Let_def p2p_loop_eq centralized_loop_eq
    using assms(3,4) by (auto simp: lp lc try_bind_def fun_eq_iff)
qed

lemma run_benchmark_total_eq:
  "\<exists>lp lc sp sc.
     map latency_ms (filter success (all_p2p_samples cs its pe)) = map Some lp \<and>
     map latency_ms (filter success (all_centralized_samples us its ce)) = map Some lc \<and>
     (\<forall>x \<in> set lp. \<exists>y. x = py_round y 2) \<and> (\<forall>x \<in> set lc. \<exists>y. x = py_round y 2) \<and>
     (lp \<noteq> [] \<longrightarrow> summary_stats lp = Inr sp) \<and>
     (lc \<noteq> [] \<longrightarrow> summary_stats lc = Inr sc) \<and>
     run_benchmark cs us its t pe ce =
       Inr \<lparr>timestamp = t,
            p2p_results = filter success (all_p2p_samples cs its pe),
            centralized_results = filter success (all_centralized_samples us its ce),
            summary = (\<lambda>k. if k = ''centralized'' \<and> lc \<noteq> [] then Some sc
                            else if k = ''p2p'' \<and> lp \<noteq> [] then Some sp else None)\<rparr>"
proof -
  obtain lp where lp: "map latency_ms (filter success (all_p2p_samples cs its pe)) = map Some lp"
    "\<forall>x \<in> set lp. \<exists>y. x = py_round y 2"
    using p2p_kept_latencies by blast
  obtain lc where lc:
    "map latency_ms (filter success (all_centralized_samples us its ce)) = map Some lc"
    "\<forall>x \<in> set lc. \<exists>y. x = py_round y 2"
    using centralized_kept_latencies by blast
  obtain sp where sp: "lp \<noteq> [] \<longrightarrow> summary_stats lp = Inr sp"
    using summary_stats_total by (cases "lp = []") auto
  obtain sc where sc: "lc \<noteq> [] \<longrightarrow> summary_stats lc = Inr sc"
    using summary_stats_total by (cases "lc = []") auto
  from run_benchmark_eq [OF lp(1) lc(1), of sp sc t] sp sc lp lc
  show ?thesis by blast
qed


subsection \<open>What the samplers return\<close>

lemma fl_numeral: "(numeral n :: int) < 2 ^ 53 \<Longrightarrow> fl (numeral n) = numeral n"
  using fl_of_int [of "numeral n"] by simp

lemma fl_neg_numeral: "(numeral n :: int) < 2 ^ 53 \<Longrightarrow> fl (- numeral n) = - numeral n"
  using fl_of_int [of "- numeral n"] by simp

lemma fl_one: "fl 1 = 1"
  using fl_of_int [of 1] by simp

lemma fl_neg_one: "fl (- 1) = - 1"
  using fl_of_int [of "- 1"] by simp

lemma py_round_numeral:
  "(numeral n :: int) < 2 ^ 53 \<Longrightarrow> py_round (numeral n) 2 = numeral n"
  using py_round_of_int [of "numeral n"] by simp

lemma py_round_neg_numeral:
  "(numeral n :: int) < 2 ^ 53 \<Longrightarrow> py_round (- numeral n) 2 = - numeral n"
  using py_round_of_int [of "- numeral n"] by simp

lemma py_round_zero: "py_round 0 2 = 0"
  using py_round_of_int [of 0] by simp

lemma py_round_one: "py_round 1 2 = 1"
  using py_round_of_int [of 1] by simp

lemma fl_half: "fl (1 / 2) = 1 / 2"
  using fl_dyadic [of 1 1] by simp

lemma py_round_neg_one: "py_round (- 1) 2 = - 1"
  using py_round_of_int [of "- 1"] by simp

lemmas fl_evals = fl_numeral fl_neg_numeral fl_one fl_neg_one fl_half
  py_round_numeral py_round_neg_numeral py_round_zero py_round_one py_round_neg_one

lemma half_second_latency:
  "py_round (fl (fl (end_time (half_second out) - start_time (half_second out)) * 1000)) 2 = 500"
  by (simp add: half_second_def fl_evals)

text \<open>
  C10. For every response of the P2P benchmark endpoint whose status is not 200,
  \<open>measure_p2p_download\<close> returns a record with \<open>success\<close> false whose \<open>error\<close> is
  the raw response body; when that body is empty, \<open>error\<close> is the empty string.
\<close>

theorem p2p_non200_error_is_body:
  assumes "outcome c = Responded r" and "status_code r \<noteq> 200"
  shows "success (measure_p2p_download c_id c) = False \<and>
         error (measure_p2p_download c_id c) = Some (resp_text r) \<and>
         (resp_text r = [] \<longrightarrow> error (measure_p2p_download c_id c) = Some [])"
  using assms by (simp add: measure_p2p_download_def p2p_failure_def empty_sample_def)

theorem p2p_non200_error_is_body_witness:
  "outcome (half_second (Responded empty_body_500)) = Responded empty_body_500 \<and>
   status_code empty_body_500 \<noteq> 200 \<and> resp_text empty_body_500 = [] \<and>
   success (measure_p2p_download ''QmX'' (half_second (Responded empty_body_500))) = False \<and>
   error (measure_p2p_download ''QmX'' (half_second (Responded empty_body_500))) = Some []"
  using p2p_non200_error_is_body [of "half_second (Responded empty_body_500)" empty_body_500 "''QmX''"]
  by (simp add: half_second_def empty_body_500_def)

text \<open>
  C3, as stated, fails: the P2P sampler hands back an empty \<open>error\<close> for a status 500 with
  an empty body, and the centralized sampler reports success for a 404.
\<close>

theorem failure_record_counterexample:
  "error (measure_p2p_download ''QmX'' (half_second (Responded empty_body_500))) = Some [] \<and>
   success (measure_centralized_download ''u'' (half_second (Responded not_found_404)))"
  by (simp add: measure_p2p_download_def measure_centralized_download_def p2p_failure_def
      empty_sample_def half_second_def empty_body_500_def not_found_404_def Let_def)

text \<open>
  C3, amended. On a \<open>requests.RequestException\<close> all three samplers return a record with
  \<open>success\<close> false and \<open>error = str(e)\<close>; \<open>measure_p2p_download\<close> and
  \<open>measure_centralized_download\<close> do the same on any other exception. On a response,
  \<open>measure_latency\<close> and \<open>measure_centralized_download\<close> return \<open>success\<close> true
  whatever the status, and \<open>measure_p2p_download\<close> turns every status other than 200
  into a failure whose \<open>error\<close> is the response body.
\<close>

theorem samplers_convert_failures:
  "(outcome c = RequestException m \<longrightarrow>
      (\<exists>s. measure_latency u c = Inr s \<and> success s = False \<and> error s = Some m) \<and>
      success (measure_p2p_download c_id c) = False \<and>
      error (measure_p2p_download c_id c) = Some m \<and>
      success (measure_centralized_download u c) = False \<and>
      error (measure_centralized_download u c) = Some m) \<and>
   (outcome c = OtherException m \<longrightarrow>
      success (measure_p2p_download c_id c) = False \<and>
      error (measure_p2p_download c_id c) = Some m \<and>
      success (measure_centralized_download u c) = False \<and>
      error (measure_centralized_download u c) = Some m) \<and>
   (outcome c = Responded r \<longrightarrow>
      (\<exists>s. measure_latency u c = Inr s \<and> success s \<and> status s = Some (status_code r)) \<and>
      success (measure_centralized_download u c) \<and>
      (status_code r \<noteq> 200 \<longrightarrow>
         success (measure_p2p_download c_id c) = False \<and>
         error (measure_p2p_download c_id c) = Some (resp_text r)))"
  by (simp add: measure_latency_def measure_p2p_download_def measure_centralized_download_def
      p2p_failure_def empty_sample_def Let_def)

theorem samplers_convert_failures_witness:
  "outcome (half_second (RequestException ''Connection refused'')) =
     RequestException ''Connection refused'' \<and>
   error (measure_centralized_download ''u'' (half_second (RequestException ''Connection refused'')))
     = Some ''Connection refused'' \<and>
   outcome (half_second (OtherException ''boom'')) = OtherException ''boom'' \<and>
   error (measure_p2p_download ''QmX'' (half_second (OtherException ''boom''))) = Some ''boom'' \<and>
   outcome (half_second (Responded not_found_404)) = Responded not_found_404 \<and>
   status_code not_found_404 \<noteq> 200 \<and>
   success (measure_centralized_download ''u'' (half_second (Responded not_found_404))) \<and>
   error (measure_p2p_download ''QmX'' (half_second (Responded not_found_404)))
     = Some ''Not Found''"
  using
    samplers_convert_failures [of "half_second (RequestException ''Connection refused'')"
      "''Connection refused''" "''u''" "''QmX''" not_found_404]
    samplers_convert_failures [of "half_second (OtherException ''boom'')"
      "''boom''" "''u''" "''QmX''" not_found_404]
    samplers_convert_failures [of "half_second (Responded not_found_404)"
      "''boom''" "''u''" "''QmX''" not_found_404]
  by (simp add: half_second_def not_found_404_def)

lemma fl_evalI:
  assumes "2 powi e \<le> \<bar>x\<bar>" and "\<bar>x\<bar> < 2 powi (e + 1)"
    and "q = max (e - 52) (- 1074)"
    and "round_half_even (x / 2 powi q) = m"
    and "y = of_int m * 2 powi q"
  shows "fl x = y"
  using fl_eqI [OF assms(1-4)] assms(5) by simp

lemma fl_3_200: "fl (3 / 200) = 8646911284551352 / 2 ^ 59"
  by (rule fl_evalI [where e = "- 7" and q = "- 59" and m = 8646911284551352])
     (simp_all add: round_half_even_def)

lemma py_round_fl_3_200: "py_round (fl (3 / 200)) 2 = fl (1 / 100)"
  unfolding fl_3_200 by (rule py_round_eqI [where k = 1, simplified]) (simp add: round_half_even_def)

text \<open>
  C4, as stated, fails: when the clock is set back during the request the elapsed time is
  negative, the sample is still successful, and \<open>speed_mbps\<close> is \<open>0\<close> where the stated
  formula gives \<open>-1.0\<close>.
\<close>

theorem speed_formula_counterexample:
  "success (measure_centralized_download ''u'' (clock_set_back (Responded megabit_200))) \<and>
   size_bytes (measure_centralized_download ''u'' (clock_set_back (Responded megabit_200)))
     = Some (PInt 125000) \<and>
   fl (end_time (clock_set_back (Responded megabit_200))
       - start_time (clock_set_back (Responded megabit_200))) = - 1 \<and>
   speed_mbps (measure_centralized_download ''u'' (clock_set_back (Responded megabit_200)))
     = Some (PInt 0) \<and>
   py_round (fl (fl (fl (of_int (125000 * 8)) / (- 1)) / 1000000)) 2 = - 1"
  by (simp add: measure_centralized_download_def clock_set_back_def megabit_200_def
      empty_sample_def Let_def fl_evals)

text \<open>
  C4, amended. For a successful centralized sample \<open>size_bytes\<close> is the length of the
  body. When the elapsed seconds (the float difference of the two clock readings) are
  positive, \<open>speed_mbps\<close> is \<open>size_bytes * 8 / elapsed_seconds / 1000000\<close> in float
  arithmetic, rounded to two decimals; when they are zero or negative, \<open>speed_mbps\<close> is
  exactly \<open>0\<close> and nothing is divided.
\<close>

theorem centralized_speed_mbps:
  assumes "success (measure_centralized_download u c)"
  shows "\<exists>r. outcome c = Responded r \<and>
      size_bytes (measure_centralized_download u c) = Some (PInt (int (length (content r)))) \<and>
      (0 < fl (end_time c - start_time c) \<longrightarrow>
         speed_mbps (measure_centralized_download u c) =
           Some (PFloat (py_round
             (fl (fl (fl (of_int (int (length (content r)) * 8))
                      / fl (end_time c - start_time c)) / 1000000)) 2))) \<and>
      (fl (end_time c - start_time c) \<le> 0 \<longrightarrow>
         speed_mbps (measure_centralized_download u c) = Some (PInt 0))"
  using assms
  by (auto simp: measure_centralized_download_def empty_sample_def Let_def
           split: http_outcome.splits)

theorem centralized_speed_mbps_witness:
  "success (measure_centralized_download ''u'' (half_second (Responded megabit_200))) \<and>
   size_bytes (measure_centralized_download ''u'' (half_second (Responded megabit_200)))
     = Some (PInt 125000) \<and>
   speed_mbps (measure_centralized_download ''u'' (half_second (Responded megabit_200)))
     = Some (PFloat 2) \<and>
   speed_mbps (measure_centralized_download ''u'' (one_second (Responded small_body_200)))
     = Some (PFloat (fl (1 / 100))) \<and>
   speed_mbps (measure_centralized_download ''u'' (same_instant (Responded megabit_200)))
     = Some (PInt 0) \<and>
   speed_mbps (measure_centralized_download ''u'' (clock_set_back (Responded megabit_200)))
     = Some (PInt 0)"
proof -
  have s: "success (measure_centralized_download ''u'' (t (Responded r)))"
    if "outcome (t (Responded r)) = Responded r" for t r
    using that by (simp add: measure_centralized_download_def empty_sample_def Let_def)
  have s1: "success (measure_centralized_download ''u'' (half_second (Responded megabit_200)))"
    by (rule s) (simp add: half_second_def)
  have s2: "success (measure_centralized_download ''u'' (one_second (Responded small_body_200)))"
    by (rule s) (simp add: one_second_def)
  have s3: "success (measure_centralized_download ''u'' (same_instant (Responded megabit_200)))"
    by (rule s) (simp add: same_instant_def)
  have s4: "success (measure_centralized_download ''u'' (clock_set_back (Responded megabit_200)))"
    by (rule s) (simp add: clock_set_back_def)
  have d1: "fl (end_time (half_second (Responded megabit_200))
                - start_time (half_second (Responded megabit_200))) = 1 / 2"
    by (simp add: half_second_def fl_evals)
  have d2: "fl (end_time (one_second (Responded small_body_200))
                - start_time (one_second (Responded small_body_200))) = 1"
    by (simp add: one_second_def fl_evals)
  have d3: "fl (end_time (same_instant (Responded megabit_200))
                - start_time (same_instant (Responded megabit_200))) = 0"
    by (simp add: same_instant_def)
  have d4: "fl (end_time (clock_set_back (Responded megabit_200))
                - start_time (clock_set_back (Responded megabit_200))) = - 1"
    by (simp add: clock_set_back_def fl_evals)
  from centralized_speed_mbps [OF s1]
  have a: "size_bytes (measure_centralized_download ''u'' (half_second (Responded megabit_200)))
       = Some (PInt 125000) \<and>
     speed_mbps (measure_centralized_download ''u'' (half_second (Responded megabit_200)))
       = Some (PFloat 2)"
    unfolding d1 by (auto simp: half_second_def megabit_200_def fl_evals)
  from centralized_speed_mbps [OF s2]
  have b: "speed_mbps (measure_centralized_download ''u'' (one_second (Responded small_body_200)))
       = Some (PFloat (fl (1 / 100)))"
    unfolding d2 by (auto simp: one_second_def small_body_200_def fl_evals py_round_fl_3_200)
  from centralized_speed_mbps [OF s3]
  have c: "speed_mbps (measure_centralized_download ''u'' (same_instant (Responded megabit_200)))
       = Some (PInt 0)"
    unfolding d3 by auto
  from centralized_speed_mbps [OF s4]
  have d: "speed_mbps (measure_centralized_download ''u'' (clock_set_back (Responded megabit_200)))
       = Some (PInt 0)"
    unfolding d4 by auto
  from s1 a b c d show ?thesis by simp
qed

text \<open>
  C9, as stated, fails: a successful P2P record carries whatever the backend put under
  \<open>bytes\<close>, here \<open>-1\<close>, and a clock set back during the request gives a negative
  \<open>latency_ms\<close>.
\<close>

theorem success_nonneg_counterexample:
  "success (measure_p2p_download ''QmX'' (half_second (Responded negative_bytes_200))) \<and>
   size_bytes (measure_p2p_download ''QmX'' (half_second (Responded negative_bytes_200)))
     = Some (PInt (- 1)) \<and>
   success (measure_centralized_download ''u'' (clock_set_back (Responded not_found_404))) \<and>
   latency_ms (measure_centralized_download ''u'' (clock_set_back (Responded not_found_404)))
     = Some (- 1000)"
  by (simp add: measure_p2p_download_def measure_centralized_download_def p2p_failure_def
      empty_sample_def half_second_def clock_set_back_def negative_bytes_200_def
      not_found_404_def Let_def fl_evals)

text \<open>
  C9, amended. A successful record of \<open>measure_latency\<close> or
  \<open>measure_centralized_download\<close> has \<open>size_bytes\<close> equal to the length of the response
  body, which is never negative; a successful P2P record has the backend's \<open>bytes\<close>
  field as it came (\<open>0\<close> when absent). In all three \<open>latency_ms\<close> is the float difference
  of the two clock readings, times 1000, rounded to two decimals, which is \<open>\<ge> 0\<close>
  whenever the clock did not go back.
\<close>

theorem success_latency_and_size:
  "(\<forall>s. measure_latency u c = Inr s \<and> success s \<longrightarrow>
      (\<exists>r. outcome c = Responded r \<and>
           size_bytes s = Some (PInt (int (length (content r)))) \<and>
           0 \<le> int (length (content r))) \<and>
      latency_ms s = Some (py_round (fl (fl (end_time c - start_time c) * 1000)) 2)) \<and>
   (success (measure_centralized_download u c) \<longrightarrow>
      (\<exists>r. outcome c = Responded r \<and>
           size_bytes (measure_centralized_download u c) =
             Some (PInt (int (length (content r)))) \<and>
           0 \<le> int (length (content r))) \<and>
      latency_ms (measure_centralized_download u c) =
        Some (py_round (fl (fl (end_time c - start_time c) * 1000)) 2)) \<and>
   (success (measure_p2p_download c_id c) \<longrightarrow>
      (\<exists>r kvs. outcome c = Responded r \<and> json_body r = Inr (PDict kvs) \<and>
         size_bytes (measure_p2p_download c_id c) =
           Some (case map_of kvs ''bytes'' of None \<Rightarrow> PInt 0 | Some v \<Rightarrow> v)) \<and>
      latency_ms (measure_p2p_download c_id c) =
        Some (py_round (fl (fl (end_time c - start_time c) * 1000)) 2)) \<and>
   (start_time c \<le> end_time c \<longrightarrow>
      0 \<le> py_round (fl (fl (end_time c - start_time c) * 1000)) 2)"
proof -
  have "success (measure_p2p_download c_id c) \<Longrightarrow>
      \<exists>r kvs. outcome c = Responded r \<and> json_body r = Inr (PDict kvs) \<and>
         size_bytes (measure_p2p_download c_id c) =
           Some (case map_of kvs ''bytes'' of None \<Rightarrow> PInt 0 | Some v \<Rightarrow> v)"
    unfolding measure_p2p_download_def
    by (cases "outcome c")
      (auto simp: p2p_failure_def empty_sample_def
         split: if_splits sum.splits elim!: dict_get.elims)
  moreover have "start_time c \<le> end_time c \<Longrightarrow>
      0 \<le> py_round (fl (fl (end_time c - start_time c) * 1000)) 2"
    by (intro py_round_nonneg fl_nonneg mult_nonneg_nonneg) simp_all
  moreover have "\<forall>s. measure_latency u c = Inr s \<and> success s \<longrightarrow>
      (\<exists>r. outcome c = Responded r \<and>
           size_bytes s = Some (PInt (int (length (content r)))) \<and>
           0 \<le> int (length (content r))) \<and>
      latency_ms s = Some (py_round (fl (fl (end_time c - start_time c) * 1000)) 2)"
    by (auto simp: measure_latency_def empty_sample_def Let_def split: http_outcome.splits)
  moreover have "success (measure_centralized_download u c) \<longrightarrow>
      (\<exists>r. outcome c = Responded r \<and>
           size_bytes (measure_centralized_download u c) =
             Some (PInt (int (length (content r)))) \<and>
           0 \<le> int (length (content r))) \<and>
      latency_ms (measure_centralized_download u c) =
        Some (py_round (fl (fl (end_time c - start_time c) * 1000)) 2)"
    by (auto simp: measure_centralized_download_def empty_sample_def Let_def
        split: http_outcome.splits)
  ultimately show ?thesis by (simp add: p2p_success_latency)
qed

theorem success_latency_and_size_witness:
  "success (measure_centralized_download ''u'' (half_second (Responded report_200))) \<and>
   size_bytes (measure_centralized_download ''u'' (half_second (Responded report_200)))
     = Some (PInt 2) \<and>
   latency_ms (measure_centralized_download ''u'' (half_second (Responded report_200)))
     = Some 500 \<and>
   success (measure_p2p_download ''QmX'' (half_second (Responded report_200))) \<and>
   size_bytes (measure_p2p_download ''QmX'' (half_second (Responded report_200)))
     = Some (PInt 2048) \<and>
   latency_ms (measure_p2p_download ''QmX'' (half_second (Responded report_200))) = Some 500 \<and>
   start_time (half_second (Responded report_200)) \<le> end_time (half_second (Responded report_200)) \<and>
   (\<exists>s. measure_latency ''u'' (half_second (Responded report_200)) = Inr s \<and> success s \<and>
        latency_ms s = Some 500 \<and> size_bytes s = Some (PInt 2))"
  using success_latency_and_size [of "''u''" "half_second (Responded report_200)" "''QmX''"]
  by (simp add: measure_latency_def measure_p2p_download_def measure_centralized_download_def
      empty_sample_def half_second_def report_200_def Let_def fl_evals)

subsection \<open>The concrete runs\<close>

lemma upt_0_3: "[0..<3] = [0, 1, 2]"
  by (simp add: numeral_3_eq_3 upt_conv_Cons)

lemma upt_0_4: "[0..<4] = [0, 1, 2, 3]"
  by (simp add: eval_nat_numeral upt_conv_Cons)

lemma map_Some_eq: "map Some xs = map Some ys \<Longrightarrow> xs = ys"
  by simp

lemma no_p2p_samples: "all_p2p_samples [] its env = []"
  by (simp add: all_p2p_samples_def)

lemma centralized_eval:
  assumes "outcome c = Responded r"
    and "fl (end_time c - start_time c) = d"
    and "fl (d * 1000) = l"
    and "round_half_even (l * 100) = k"
  shows "success (measure_centralized_download u c) \<and>
         latency_ms (measure_centralized_download u c) = Some (fl (of_int k / 100))"
proof -
  have s: "success (measure_centralized_download u c)"
    using assms(1) by (simp add: measure_centralized_download_def empty_sample_def Let_def)
  from centralized_success_latency [OF s] assms(2,3) py_round_eqI [OF assms(4)] s
  show ?thesis by simp
qed

lemma p2p_eval:
  assumes "success (measure_p2p_download c_id c)"
    and "fl (end_time c - start_time c) = d"
    and "fl (d * 1000) = l"
    and "round_half_even (l * 100) = k"
  shows "latency_ms (measure_p2p_download c_id c) = Some (fl (of_int k / 100))"
  using p2p_success_latency [OF assms(1)] assms(2,3) py_round_eqI [OF assms(4)] by simp

lemma fl_1_100: "fl (1 / 100) = 5764607523034235 / 2 ^ 59"
  by (rule fl_evalI [where e = "- 7" and q = "- 59" and m = 5764607523034235])
     (simp_all add: round_half_even_def)

lemma fl_1_50: "fl (1 / 50) = 5764607523034235 / 2 ^ 58"
  by (rule fl_evalI [where e = "- 6" and q = "- 58" and m = 5764607523034235])
     (simp_all add: round_half_even_def)

lemma fl_10001_100: "fl (10001 / 100) = 7037578105208177 / 2 ^ 46"
  by (rule fl_evalI [where e = 6 and q = "- 46" and m = 7037578105208177])
     (simp_all add: round_half_even_def)

lemma steady_call:
  "success (measure_centralized_download u (steady_env k i)) \<and>
   latency_ms (measure_centralized_download u (steady_env k i)) = Some 100"
proof -
  have d: "fl (end_time (steady_env k i) - start_time (steady_env k i)) = 13107 / 131072"
    using fl_dyadic [of 13107 17] by (simp add: steady_env_def)
  have l: "fl (13107 / 131072 * 1000) = 13107 / 131072 * 1000"
    using fl_dyadic [of 13107000 17] by simp
  have k: "round_half_even (13107 / 131072 * 1000 * 100) = 10000"
    by (simp add: round_half_even_def)
  from centralized_eval [OF _ d l k, of report_200 u]
  show ?thesis by (simp add: steady_env_def fl_evals)
qed

lemma flaky_call:
  assumes "i \<noteq> 1"
  shows "success (measure_centralized_download u (flaky_env k i)) \<and>
   latency_ms (measure_centralized_download u (flaky_env k i)) = Some 100"
proof -
  have d: "fl (end_time (flaky_env k i) - start_time (flaky_env k i)) = 13107 / 131072"
    using fl_dyadic [of 13107 17] by (simp add: flaky_env_def)
  have l: "fl (13107 / 131072 * 1000) = 13107 / 131072 * 1000"
    using fl_dyadic [of 13107000 17] by simp
  have k: "round_half_even (13107 / 131072 * 1000 * 100) = 10000"
    by (simp add: round_half_even_def)
  from centralized_eval [OF _ d l k, of report_200 u] assms
  show ?thesis by (simp add: flaky_env_def fl_evals)
qed

lemma ramp_call_0:
  "success (measure_centralized_download u (ramp_env k 0)) \<and>
   latency_ms (measure_centralized_download u (ramp_env k 0)) = Some 0"
proof -
  have d: "fl (end_time (ramp_env k 0) - start_time (ramp_env k 0)) = 0"
    by (simp add: ramp_env_def)
  have l: "fl (0 * 1000) = 0" by simp
  have k: "round_half_even (0 * 100) = 0" by (simp add: round_half_even_def)
  from centralized_eval [OF _ d l k, of report_200 u]
  show ?thesis by (simp add: ramp_env_def)
qed

lemma ramp_call_1:
  "success (measure_centralized_download u (ramp_env k (Suc 0))) \<and>
   latency_ms (measure_centralized_download u (ramp_env k (Suc 0))) = Some 1"
proof -
  have d: "fl (end_time (ramp_env k (Suc 0)) - start_time (ramp_env k (Suc 0))) = 1049 / 1048576"
    using fl_dyadic [of 1049 20] by (simp add: ramp_env_def)
  have l: "fl (1049 / 1048576 * 1000) = 1049 / 1048576 * 1000"
    using fl_dyadic [of 1049000 20] by simp
  have k: "round_half_even (1049 / 1048576 * 1000 * 100) = 100"
    by (simp add: round_half_even_def)
  from centralized_eval [OF _ d l k, of report_200 u]
  show ?thesis by (simp add: ramp_env_def fl_evals)
qed

lemma ramp_call_2:
  "success (measure_centralized_download u (ramp_env k 2)) \<and>
   latency_ms (measure_centralized_download u (ramp_env k 2)) = Some 2"
proof -
  have d: "fl (end_time (ramp_env k 2) - start_time (ramp_env k 2)) = 2098 / 1048576"
    using fl_dyadic [of 2098 20] by (simp add: ramp_env_def)
  have l: "fl (2098 / 1048576 * 1000) = 2098 / 1048576 * 1000"
    using fl_dyadic [of 2098000 20] by simp
  have k: "round_half_even (2098 / 1048576 * 1000 * 100) = 200"
    by (simp add: round_half_even_def)
  from centralized_eval [OF _ d l k, of report_200 u]
  show ?thesis by (simp add: ramp_env_def fl_evals)
qed



lemma outlier_call:
  assumes "i \<noteq> 3"
  shows "success (measure_centralized_download u (outlier_env k i)) \<and>
   latency_ms (measure_centralized_download u (outlier_env k i)) = Some 100"
proof -
  have d: "fl (end_time (outlier_env k i) - start_time (outlier_env k i)) = 13107 / 131072"
    using fl_dyadic [of 13107 17] assms by (simp add: outlier_env_def)
  have l: "fl (13107 / 131072 * 1000) = 13107 / 131072 * 1000"
    using fl_dyadic [of 13107000 17] by simp
  have k: "round_half_even (13107 / 131072 * 1000 * 100) = 10000"
    by (simp add: round_half_even_def)
  from centralized_eval [OF _ d l k, of report_200 u]
  show ?thesis by (simp add: outlier_env_def fl_evals)
qed

lemma outlier_call_3:
  "success (measure_centralized_download u (outlier_env k 3)) \<and>
   latency_ms (measure_centralized_download u (outlier_env k 3)) = Some (fl (10001 / 100))"
proof -
  have d: "fl (end_time (outlier_env k 3) - start_time (outlier_env k 3)) = 13108 / 131072"
    using fl_dyadic [of 13108 17] by (simp add: outlier_env_def)
  have l: "fl (13108 / 131072 * 1000) = 13108 / 131072 * 1000"
    using fl_dyadic [of 13108000 17] by simp
  have k: "round_half_even (13108 / 131072 * 1000 * 100) = 10001"
    by (simp add: round_half_even_def)
  from centralized_eval [OF _ d l k, of report_200 u]
  show ?thesis by (simp add: outlier_env_def)
qed


lemma ramp_centralized_latencies:
  "map latency_ms (filter success (all_centralized_samples [''u''] 3 ramp_env)) =
     map Some [0, 1, 2]"
  by (simp add: all_centralized_samples_def upt_0_3 ramp_call_0 ramp_call_1 ramp_call_2)

lemma ramp_centralized_latency_single:
  "map latency_ms (filter success (all_centralized_samples [''u''] 1 ramp_env)) = map Some [0]"
  by (simp add: all_centralized_samples_def ramp_call_0)


lemma outlier_centralized_latencies:
  "map latency_ms (filter success (all_centralized_samples [''u''] 4 outlier_env)) =
     map Some [100, 100, 100, fl (10001 / 100)]"
  by (simp add: all_centralized_samples_def upt_0_4 outlier_call outlier_call_3)

lemma steady_latency:
  "py_round (fl (fl (end_time (steady_env k i) - start_time (steady_env k i)) * 1000)) 2 = 100"
  using steady_call [of "''u''" k i]
    centralized_success_latency [of "''u''" "steady_env k i"] by simp

lemma steady_demo_latencies:
  "map latency_ms (filter success
      (all_centralized_samples PUBLIC_TEST_URLS 3 steady_env)) =
   map Some [100, 100, 100, 100, 100, 100]"
  by (simp add: all_centralized_samples_def PUBLIC_TEST_URLS_def upt_0_3 steady_call)

lemma ramp_stats:
  "summary_stats [0, 1, 2] =
     Inr [''avg_latency_ms'' \<mapsto> PFloat 1, ''min_latency_ms'' \<mapsto> PFloat 0,
          ''max_latency_ms'' \<mapsto> PFloat 2, ''std_dev'' \<mapsto> PFloat 1]"
  by (simp add: summary_stats_eq fl_evals)

lemma steady_stats:
  "summary_stats [100, 100, 100, 100, 100, 100] =
     Inr [''avg_latency_ms'' \<mapsto> PFloat 100, ''min_latency_ms'' \<mapsto> PFloat 100,
          ''max_latency_ms'' \<mapsto> PFloat 100, ''std_dev'' \<mapsto> PFloat 0]"
  by (simp add: summary_stats_eq fl_evals)


lemma tie_mean_exact:
  "py_round (arithmetic_mean [fl (1 / 100), fl (1 / 50)]) 2 = fl (1 / 50)"
proof -
  have m: "arithmetic_mean [fl (1 / 100), fl (1 / 50)] = 17293822569102705 / 2 ^ 60"
    by (simp add: arithmetic_mean_def fl_1_100 fl_1_50)
  show ?thesis
    unfolding m
    by (rule py_round_eqI [where k = 2, simplified]) (simp add: round_half_even_def)
qed

lemma outlier_std:
  "py_round (fl (sample_std_dev [100, 100, 100, fl (10001 / 100)])) 2 = fl (1 / 100)"
proof -
  have v: "sum_list (map (\<lambda>d. (d - arithmetic_mean [100, 100, 100, 7037578105208177 / 2 ^ 46])\<^sup>2)
              [100, 100, 100, 7037578105208177 / 2 ^ 46]) / of_nat (length [100, 100, 100, 7037578105208177 / 2 ^ 46 :: real] - 1)
           = (703687441777 / 2 ^ 47)\<^sup>2"
    by (simp add: arithmetic_mean_def power2_eq_square)
  have s: "sample_std_dev [100, 100, 100, fl (10001 / 100)] = 703687441777 / 2 ^ 47"
    unfolding sample_std_dev_def fl_10001_100 v by (simp only: real_sqrt_abs) simp
  have f: "fl (703687441777 / 2 ^ 47) = 703687441777 / 2 ^ 47"
    using fl_dyadic [of 703687441777 47] by simp
  show ?thesis
    unfolding s f
    by (rule py_round_eqI [where k = 1, simplified]) (simp add: round_half_even_def)
qed

lemma fl_close_milli:
  assumes "\<bar>x\<bar> \<le> 1"
  shows "\<bar>fl x - x\<bar> \<le> 1 / 1000"
proof -
  have "\<bar>x\<bar> / 2 ^ 53 \<le> 1 / 2 ^ 53" using assms by (simp add: divide_right_mono)
  also have "\<dots> \<le> (1::real) / 2 ^ 16"
    by (intro divide_left_mono power_increasing) simp_all
  finally have "\<bar>x\<bar> / 2 ^ 53 + 1 / 2 ^ 10 \<le> 1 / 2 ^ 16 + 1 / 2 ^ 10" by simp
  also have "\<dots> \<le> (1::real) / 1000" by simp
  finally show ?thesis using fl_close [of x] by linarith
qed

lemma population_std_dev_ramp:
  "py_round (fl (population_std_dev [0, 1, 2])) 2 = fl (82 / 100)"
proof -
  have v: "population_std_dev [0, 1, 2] = sqrt (2 / 3)"
    by (simp add: population_std_dev_def arithmetic_mean_def)
  have "(8164 / 10000)\<^sup>2 < (2 / 3 :: real)" by (simp add: power2_eq_square)
  then have lo: "8164 / 10000 < sqrt (2 / 3)" by (rule real_less_rsqrt)
  have "(2 / 3 :: real) < (817 / 1000)\<^sup>2" by (simp add: power2_eq_square)
  then have hi: "sqrt (2 / 3) < 817 / 1000" by (intro real_less_lsqrt) simp_all
  have "\<bar>sqrt (2 / 3)\<bar> \<le> 1" using lo hi by simp
  then have near: "\<bar>fl (sqrt (2 / 3)) - sqrt (2 / 3)\<bar> \<le> 1 / 1000"
    by (rule fl_close_milli)
  have "815 / 1000 < fl (sqrt (2 / 3))" using near lo by linarith
  moreover have "fl (sqrt (2 / 3)) < 825 / 1000" using near hi by linarith
  ultimately have "round_half_even (fl (sqrt (2 / 3)) * 100) = 82"
    by (intro round_half_even_near) simp_all
  then have "py_round (fl (sqrt (2 / 3))) 2 = fl (of_int 82 / 100)" by (rule py_round_eqI)
  then show ?thesis unfolding v by simp
qed

lemma fl_82_100_less_1: "fl (82 / 100) < 1"
proof -
  have "\<bar>fl (82 / 100) - 82 / 100\<bar> \<le> 1 / 512" by (rule fl_close_unit) simp
  then show ?thesis by linarith
qed

lemma ramp_run_std_dev:
  "summary_field (run_benchmark [] [''u''] 3 ''t'' ramp_env ramp_env) ''centralized'' ''std_dev''
     = Some (PFloat 1)"
  using run_benchmark_eq [of "[]" 3 ramp_env "[]" "[''u'']" ramp_env "[0, 1, 2]" Map.empty _ "''t''"]
    ramp_stats
  by (simp add: summary_field_def no_p2p_samples ramp_centralized_latencies)

lemma ramp_run_latencies:
  "kept_latencies_of (run_benchmark [] [''u''] 3 ''t'' ramp_env ramp_env) =
     [Some 0, Some 1, Some 2]"
proof -
  from run_benchmark_total_eq [of "[]" 3 ramp_env "[''u'']" ramp_env "''t''"]
  obtain res where "run_benchmark [] [''u''] 3 ''t'' ramp_env ramp_env = Inr res"
    "centralized_results res = filter success (all_centralized_samples [''u''] 3 ramp_env)"
    by auto
  then show ?thesis
    by (simp add: kept_latencies_of_def ramp_centralized_latencies)
qed

subsection \<open>What \<open>run_benchmark\<close> records and summarises\<close>





text \<open>
  C5. The two sequences of \<open>run_benchmark\<close> are exactly the sampler results with
  \<open>success\<close> true, in call order; a failed result is in neither, and the latency lists and
  both summary entries are computed from the kept records alone.
\<close>
theorem only_successes_kept:
  "\<exists>res Dp Dc.
     run_benchmark cs us its t pe ce = Inr res \<and>
     p2p_results res = filter success (all_p2p_samples cs its pe) \<and>
     centralized_results res = filter success (all_centralized_samples us its ce) \<and>
     (\<forall>r \<in> set (p2p_results res) \<union> set (centralized_results res). success r) \<and>
     latencies (p2p_results res) = Inr Dp \<and>
     latencies (centralized_results res) = Inr Dc \<and>
     map Some Dp = map latency_ms (filter success (all_p2p_samples cs its pe)) \<and>
     map Some Dc = map latency_ms (filter success (all_centralized_samples us its ce)) \<and>
     summary res ''p2p'' =
       (if Dp = [] then None
        else case summary_stats Dp of Inl e \<Rightarrow> None | Inr s \<Rightarrow> Some s) \<and>
     summary res ''centralized'' =
       (if Dc = [] then None
        else case summary_stats Dc of Inl e \<Rightarrow> None | Inr s \<Rightarrow> Some s)"
proof -
  from run_benchmark_total_eq [of cs its pe us ce t]
  obtain lp lc sp sc where h:
    "map latency_ms (filter success (all_p2p_samples cs its pe)) = map Some lp"
    "map latency_ms (filter success (all_centralized_samples us its ce)) = map Some lc"
    "lp \<noteq> [] \<longrightarrow> summary_stats lp = Inr sp"
    "lc \<noteq> [] \<longrightarrow> summary_stats lc = Inr sc"
    "run_benchmark cs us its t pe ce =
       Inr \<lparr>timestamp = t,
            p2p_results = filter success (all_p2p_samples cs its pe),
            centralized_results = filter success (all_centralized_samples us its ce),
            summary = (\<lambda>k. if k = ''centralized'' \<and> lc \<noteq> [] then Some sc
                            else if k = ''p2p'' \<and> lp \<noteq> [] then Some sp else None)\<rparr>"
    by blast
  have lp: "latencies (filter success (all_p2p_samples cs its pe)) = Inr lp"
    by (rule latencies_all_success) (simp_all add: h(1))
  have lc: "latencies (filter success (all_centralized_samples us its ce)) = Inr lc"
    by (rule latencies_all_success) (simp_all add: h(2))
  show ?thesis
    using h lp lc by auto
qed

theorem only_successes_kept_witness:
  "\<not> success (measure_p2p_download ''QmX'' (flaky_env 0 1)) \<and>
   \<not> success (measure_centralized_download ''u'' (flaky_env 0 1)) \<and>
   (\<exists>res. run_benchmark [''QmX''] [''u''] 3 ''t'' flaky_env flaky_env = Inr res \<and>
      p2p_results res =
        [measure_p2p_download ''QmX'' (flaky_env 0 0), measure_p2p_download ''QmX'' (flaky_env 0 2)] \<and>
      centralized_results res =
        [measure_centralized_download ''u'' (flaky_env 0 0),
         measure_centralized_download ''u'' (flaky_env 0 2)] \<and>
      (\<forall>r \<in> set (p2p_results res) \<union> set (centralized_results res). success r) \<and>
      latencies (centralized_results res) = Inr [100, 100])"
proof -
  have p: "filter success (all_p2p_samples [''QmX''] 3 flaky_env) =
      [measure_p2p_download ''QmX'' (flaky_env 0 0), measure_p2p_download ''QmX'' (flaky_env 0 2)]"
    by (simp add: all_p2p_samples_def upt_0_3 measure_p2p_download_def flaky_env_def
        report_200_def p2p_failure_def empty_sample_def)
  have f: "\<not> success (measure_p2p_download ''QmX'' (flaky_env 0 1)) \<and>
      \<not> success (measure_centralized_download ''u'' (flaky_env 0 1))"
    by (simp add: measure_p2p_download_def measure_centralized_download_def flaky_env_def
        p2p_failure_def empty_sample_def)
  have c: "filter success (all_centralized_samples [''u''] 3 flaky_env) =
      [measure_centralized_download ''u'' (flaky_env 0 0),
       measure_centralized_download ''u'' (flaky_env 0 2)]"
    using f by (simp add: all_centralized_samples_def upt_0_3 flaky_call)
  have l: "map latency_ms [measure_centralized_download ''u'' (flaky_env 0 0),
       measure_centralized_download ''u'' (flaky_env 0 2)] = map Some [100, 100]"
    by (simp add: flaky_call)
  from only_successes_kept [of "[''QmX'']" "[''u'']" 3 "''t''" flaky_env flaky_env]
  obtain res Dc where r:
    "run_benchmark [''QmX''] [''u''] 3 ''t'' flaky_env flaky_env = Inr res"
    "p2p_results res = filter success (all_p2p_samples [''QmX''] 3 flaky_env)"
    "centralized_results res = filter success (all_centralized_samples [''u''] 3 flaky_env)"
    "\<forall>r \<in> set (p2p_results res) \<union> set (centralized_results res). success r"
    "latencies (centralized_results res) = Inr Dc"
    "map Some Dc = map latency_ms (filter success (all_centralized_samples [''u''] 3 flaky_env))"
    by blast
  from r(6) have "map Some Dc = map Some [100, 100]" unfolding c l by simp
  then have "Dc = [100, 100]" by (rule map_Some_eq)
  with r f show ?thesis unfolding p c by blast
qed

text \<open>
  C7, as stated, fails: for the recorded latencies 0, 1 and 2 ms the summary has
  \<open>std_dev = 1.0\<close>, the sample standard deviation, while the population standard
  deviation is \<open>sqrt (2/3)\<close>, which rounds to \<open>0.82\<close>.
\<close>
theorem population_std_dev_counterexample:
  "kept_latencies_of (run_benchmark [] [''u''] 3 ''t'' ramp_env ramp_env) =
     [Some 0, Some 1, Some 2] \<and>
   summary_field (run_benchmark [] [''u''] 3 ''t'' ramp_env ramp_env) ''centralized'' ''std_dev''
     = Some (PFloat 1) \<and>
   py_round (fl (population_std_dev [0, 1, 2])) 2 = fl (82 / 100) \<and>
   fl (82 / 100) < 1 \<and>
   population_std_dev [0, 1, 2] \<noteq> 1"
proof -
  have "(2 / 3 :: real) < 1\<^sup>2" by simp
  then have "sqrt (2 / 3) < 1" by (intro real_less_lsqrt) simp_all
  then have "population_std_dev [0, 1, 2] \<noteq> 1"
    by (simp add: population_std_dev_def arithmetic_mean_def)
  then show ?thesis
    using fl_82_100_less_1
    by (simp add: ramp_run_latencies ramp_run_std_dev population_std_dev_ramp)
qed

text \<open>
  C7, amended. \<open>std_dev\<close> in a kind's summary is the sample standard deviation of that
  kind's recorded latencies (the float nearest to it), rounded to two decimals, when there
  are two or more; it is \<open>0\<close> for exactly one; with none the kind has no summary entry.
\<close>
theorem std_dev_is_sample_std_dev:
  "\<exists>res Dp Dc.
     run_benchmark cs us its t pe ce = Inr res \<and>
     map latency_ms (p2p_results res) = map Some Dp \<and>
     map latency_ms (centralized_results res) = map Some Dc \<and>
     (2 \<le> length Dp \<longrightarrow> summary_field (Inr res) ''p2p'' ''std_dev'' =
        Some (PFloat (py_round (fl (sample_std_dev Dp)) 2))) \<and>
     (length Dp = 1 \<longrightarrow> summary_field (Inr res) ''p2p'' ''std_dev'' = Some (PInt 0)) \<and>
     (Dp = [] \<longrightarrow> summary res ''p2p'' = None) \<and>
     (2 \<le> length Dc \<longrightarrow> summary_field (Inr res) ''centralized'' ''std_dev'' =
        Some (PFloat (py_round (fl (sample_std_dev Dc)) 2))) \<and>
     (length Dc = 1 \<longrightarrow> summary_field (Inr res) ''centralized'' ''std_dev'' = Some (PInt 0)) \<and>
     (Dc = [] \<longrightarrow> summary res ''centralized'' = None)"
proof -
  have field: "(2 \<le> length D \<longrightarrow> (if D \<noteq> [] then Some s else None) \<noteq> None \<and> s ''std_dev'' =
        Some (PFloat (py_round (fl (sample_std_dev D)) 2))) \<and>
     (length D = 1 \<longrightarrow> s ''std_dev'' = Some (PInt 0))"
    if "D \<noteq> [] \<longrightarrow> summary_stats D = Inr s" for D s
  proof (cases "D = []")
    case True
    then show ?thesis by simp
  next
    case False
    with that summary_stats_eq [of D] show ?thesis
      by (auto simp: sample_std_dev_def arithmetic_mean_def)
  qed
  from run_benchmark_total_eq [of cs its pe us ce t]
  obtain lp lc sp sc where h:
    "map latency_ms (filter success (all_p2p_samples cs its pe)) = map Some lp"
    "map latency_ms (filter success (all_centralized_samples us its ce)) = map Some lc"
    "lp \<noteq> [] \<longrightarrow> summary_stats lp = Inr sp"
    "lc \<noteq> [] \<longrightarrow> summary_stats lc = Inr sc"
    "run_benchmark cs us its t pe ce =
       Inr \<lparr>timestamp = t,
            p2p_results = filter success (all_p2p_samples cs its pe),
            centralized_results = filter success (all_centralized_samples us its ce),
            summary = (\<lambda>k. if k = ''centralized'' \<and> lc \<noteq> [] then Some sc
                            else if k = ''p2p'' \<and> lp \<noteq> [] then Some sp else None)\<rparr>"
    by blast
  from field [OF h(3)] field [OF h(4)] h(1,2)
  show ?thesis unfolding h(5) by (auto simp: summary_field_def)
qed

theorem std_dev_is_sample_std_dev_witness:
  "sample_std_dev [0, 1, 2] = 1 \<and>
   summary_field (run_benchmark [] [''u''] 3 ''t'' ramp_env ramp_env) ''centralized'' ''std_dev''
     = Some (PFloat 1) \<and>
   summary_field (run_benchmark [] [''u''] 1 ''t'' ramp_env ramp_env) ''centralized'' ''std_dev''
     = Some (PInt 0) \<and>
   summary_field (run_benchmark [] [''u''] 1 ''t'' ramp_env ramp_env) ''p2p'' ''std_dev'' = None \<and>
   kept_latencies_of (run_benchmark [] [''u''] 4 ''t'' outlier_env outlier_env) =
     [Some 100, Some 100, Some 100, Some (fl (10001 / 100))] \<and>
   summary_field (run_benchmark [] [''u''] 4 ''t'' outlier_env outlier_env)
     ''centralized'' ''std_dev'' = Some (PFloat (fl (1 / 100)))"
proof -
  have sd: "sample_std_dev [0, 1, 2] = 1"
    by (simp add: sample_std_dev_def arithmetic_mean_def)
  have three: "summary_field (run_benchmark [] [''u''] 3 ''t'' ramp_env ramp_env)
      ''centralized'' ''std_dev'' = Some (PFloat 1)"
  proof -
    from std_dev_is_sample_std_dev [of "[]" "[''u'']" 3 "''t''" ramp_env ramp_env]
    obtain res Dc where r:
      "run_benchmark [] [''u''] 3 ''t'' ramp_env ramp_env = Inr res"
      "map latency_ms (centralized_results res) = map Some Dc"
      "2 \<le> length Dc \<longrightarrow> summary_field (Inr res) ''centralized'' ''std_dev'' =
         Some (PFloat (py_round (fl (sample_std_dev Dc)) 2))"
      by blast
    from ramp_run_latencies r(1,2) have "map Some Dc = map Some [0, 1, 2]"
      by (simp add: kept_latencies_of_def)
    then have "Dc = [0, 1, 2]" by (rule map_Some_eq)
    with r(1,3) sd show ?thesis by (simp add: fl_evals)
  qed
  have one: "summary_field (run_benchmark [] [''u''] 1 ''t'' ramp_env ramp_env)
        ''centralized'' ''std_dev'' = Some (PInt 0) \<and>
      summary_field (run_benchmark [] [''u''] 1 ''t'' ramp_env ramp_env) ''p2p'' ''std_dev''
        = None"
  proof -
    from std_dev_is_sample_std_dev [of "[]" "[''u'']" 1 "''t''" ramp_env ramp_env]
    obtain res Dp Dc where r:
      "run_benchmark [] [''u''] 1 ''t'' ramp_env ramp_env = Inr res"
      "map latency_ms (p2p_results res) = map Some Dp"
      "map latency_ms (centralized_results res) = map Some Dc"
      "length Dc = 1 \<longrightarrow> summary_field (Inr res) ''centralized'' ''std_dev'' = Some (PInt 0)"
      "Dp = [] \<longrightarrow> summary res ''p2p'' = None"
      by blast
    from run_benchmark_total_eq [of "[]" 1 ramp_env "[''u'']" ramp_env "''t''"] r(1)
    have "p2p_results res = []"
      "centralized_results res = filter success (all_centralized_samples [''u''] 1 ramp_env)"
      by (auto simp: no_p2p_samples)
    with r(2,3) have "Dp = []" "map Some Dc = map Some [0]"
      by (simp_all add: ramp_centralized_latency_single)
    then have "Dp = []" "length Dc = 1" by auto
    with r(1,4,5) show ?thesis by (simp add: summary_field_def)
  qed
  have four: "kept_latencies_of (run_benchmark [] [''u''] 4 ''t'' outlier_env outlier_env) =
       [Some 100, Some 100, Some 100, Some (fl (10001 / 100))] \<and>
     summary_field (run_benchmark [] [''u''] 4 ''t'' outlier_env outlier_env)
       ''centralized'' ''std_dev'' = Some (PFloat (fl (1 / 100)))"
  proof -
    from std_dev_is_sample_std_dev [of "[]" "[''u'']" 4 "''t''" outlier_env outlier_env]
    obtain res Dc where r:
      "run_benchmark [] [''u''] 4 ''t'' outlier_env outlier_env = Inr res"
      "map latency_ms (centralized_results res) = map Some Dc"
      "2 \<le> length Dc \<longrightarrow> summary_field (Inr res) ''centralized'' ''std_dev'' =
         Some (PFloat (py_round (fl (sample_std_dev Dc)) 2))"
      by blast
    from run_benchmark_total_eq [of "[]" 4 outlier_env "[''u'']" outlier_env "''t''"] r(1)
    have "centralized_results res = filter success (all_centralized_samples [''u''] 4 outlier_env)"
      by auto
    with r(2) have "map Some Dc = map Some [100, 100, 100, fl (10001 / 100)]"
      by (simp add: outlier_centralized_latencies)
    then have D: "Dc = [100, 100, 100, fl (10001 / 100)]" by (rule map_Some_eq)
    from r(3) have "summary_field (Inr res) ''centralized'' ''std_dev'' =
         Some (PFloat (fl (1 / 100)))"
      unfolding D outlier_std by simp
    with r(1,2) show ?thesis unfolding D by (simp add: kept_latencies_of_def)
  qed
  from sd three one four show ?thesis by blast
qed

text \<open>
  C8. Two URLs, three iterations, every centralized request answered with a recorded
  latency of 100 ms: six records, and a centralized summary with average, minimum and
  maximum \<open>100.0\<close> and standard deviation \<open>0.0\<close>.
\<close>
theorem fixed_latency_scenario:
  assumes ok: "\<forall>k<2. \<forall>i<3. (\<exists>r. outcome (ce k i) = Responded r) \<and>
     py_round (fl (fl (end_time (ce k i) - start_time (ce k i)) * 1000)) 2 = 100"
  shows "\<exists>res s. run_benchmark cs [u1, u2] 3 t pe ce = Inr res \<and>
           length (centralized_results res) = 6 \<and>
           map latency_ms (centralized_results res) = replicate 6 (Some 100) \<and>
           summary res ''centralized'' = Some s \<and>
           s ''avg_latency_ms'' = Some (PFloat 100) \<and>
           s ''min_latency_ms'' = Some (PFloat 100) \<and>
           s ''max_latency_ms'' = Some (PFloat 100) \<and>
           s ''std_dev'' = Some (PFloat 0)"
proof -
  have each: "success (measure_centralized_download u (ce k i)) \<and>
              latency_ms (measure_centralized_download u (ce k i)) = Some 100"
    if "k < 2" "i < 3" for u k i
  proof -
    from ok that obtain r where r: "outcome (ce k i) = Responded r"
      and l: "py_round (fl (fl (end_time (ce k i) - start_time (ce k i)) * 1000)) 2 = 100"
      by blast
    have "success (measure_centralized_download u (ce k i))"
      by (simp add: measure_centralized_download_def r empty_sample_def Let_def)
    then show ?thesis using centralized_success_latency [of u "ce k i"] l by simp
  qed
  have samples: "all_centralized_samples [u1, u2] 3 ce =
      [measure_centralized_download u1 (ce 0 0), measure_centralized_download u1 (ce 0 1),
       measure_centralized_download u1 (ce 0 2), measure_centralized_download u2 (ce 1 0),
       measure_centralized_download u2 (ce 1 1), measure_centralized_download u2 (ce 1 2)]"
    by (simp add: all_centralized_samples_def upt_0_3)
  have kept: "filter success (all_centralized_samples [u1, u2] 3 ce) =
      all_centralized_samples [u1, u2] 3 ce"
    unfolding samples using each by simp
  have lats: "map latency_ms (filter success (all_centralized_samples [u1, u2] 3 ce)) =
      map Some [100, 100, 100, 100, 100, 100]"
    unfolding kept unfolding samples using each by simp
  obtain lp where lp: "map latency_ms (filter success (all_p2p_samples cs 3 pe)) = map Some lp"
    using p2p_kept_latencies by blast
  obtain sp where sp: "lp \<noteq> [] \<Longrightarrow> summary_stats lp = Inr sp"
    using summary_stats_total by (cases "lp = []") auto
  from run_benchmark_eq [OF lp lats sp, of _ t] steady_stats
  have "run_benchmark cs [u1, u2] 3 t pe ce =
     Inr \<lparr>timestamp = t,
          p2p_results = filter success (all_p2p_samples cs 3 pe),
          centralized_results = filter success (all_centralized_samples [u1, u2] 3 ce),
          summary = (\<lambda>k. if k = ''centralized''
                          then Some [''avg_latency_ms'' \<mapsto> PFloat 100,
                                     ''min_latency_ms'' \<mapsto> PFloat 100,
                                     ''max_latency_ms'' \<mapsto> PFloat 100,
                                     ''std_dev'' \<mapsto> PFloat 0]
                          else if k = ''p2p'' \<and> lp \<noteq> [] then Some sp else None)\<rparr>"
    by simp
  moreover have "length (filter success (all_centralized_samples [u1, u2] 3 ce)) = 6"
    unfolding kept by (simp add: samples)
  moreover have "map latency_ms (filter success (all_centralized_samples [u1, u2] 3 ce)) =
      replicate 6 (Some 100)"
    unfolding lats by (simp add: numeral_eq_Suc)
  ultimately show ?thesis by simp
qed

theorem fixed_latency_scenario_witness:
  "outcome (steady_env 1 2) = Responded report_200 \<and>
   py_round (fl (fl (end_time (steady_env 1 2) - start_time (steady_env 1 2)) * 1000)) 2 = 100 \<and>
   (\<exists>res s. run_benchmark [] [''a'', ''b''] 3 ''t'' steady_env steady_env = Inr res \<and>
       length (centralized_results res) = 6 \<and>
       summary res ''centralized'' = Some s \<and>
       s ''avg_latency_ms'' = Some (PFloat 100) \<and>
       s ''min_latency_ms'' = Some (PFloat 100) \<and>
       s ''max_latency_ms'' = Some (PFloat 100) \<and>
       s ''std_dev'' = Some (PFloat 0))"
proof -
  have h: "\<forall>k<2. \<forall>i<3. (\<exists>r. outcome (steady_env k i) = Responded r) \<and>
       py_round (fl (fl (end_time (steady_env k i) - start_time (steady_env k i)) * 1000)) 2 = 100"
    by (simp add: steady_latency) (simp add: steady_env_def)
  have "outcome (steady_env 1 2) = Responded report_200"
    by (simp add: steady_env_def)
  with fixed_latency_scenario [OF h, of "[]" "''a''" "''b''" "''t''" steady_env] steady_latency
  show ?thesis by blast
qed

subsection \<open>The phases of \<open>main\<close>\<close>

lemma fold_main_step:
  "fold (main_step u env) js st =
     st\<lparr>urls_sampled := urls_sampled st @ replicate (length js) u,
        doc := (doc st)\<lparr>centralized_results := centralized_results (doc st) @
                 filter success (map (\<lambda>i. measure_centralized_download u (env i)) js)\<rparr>,
        lines := lines st @
                 map (\<lambda>i. IterationLine (i + 1))
                   (filter (\<lambda>i. success (measure_centralized_download u (env i))) js)\<rparr>"
proof (induction js arbitrary: st)
  case Nil
  then show ?case by simp
next
  case (Cons j js)
  have unroll: "fold (main_step u env) (j # js) st =
      fold (main_step u env) js (main_step u env j st)"
    by simp
  have step: "main_step u env j st =
      (if success (measure_centralized_download u (env j))
       then st\<lparr>urls_sampled := urls_sampled st @ [u],
               doc := (doc st)\<lparr>centralized_results := centralized_results (doc st) @
                        [measure_centralized_download u (env j)]\<rparr>,
               lines := lines st @ [IterationLine (j + 1)]\<rparr>
       else st\<lparr>urls_sampled := urls_sampled st @ [u]\<rparr>)"
    by (simp add: main_step_def Let_def)
  show ?case
    unfolding unroll step
    by (simp add: Cons.IH replicate_app_Cons_same)
qed

lemma main_sampling_eq:
  "main_sampling env st =
     st\<lparr>urls_sampled := urls_sampled st @ concat (map (replicate 3) PUBLIC_TEST_URLS),
        doc := (doc st)\<lparr>centralized_results := centralized_results (doc st) @
                 filter success (all_centralized_samples PUBLIC_TEST_URLS 3 env)\<rparr>,
        lines := lines st @ progress_lines env\<rparr>"
  by (simp add: main_sampling_def fold_main_step PUBLIC_TEST_URLS_def
      all_centralized_samples_def progress_lines_def)

lemma main_summary_eq:
  assumes "\<forall>r \<in> set (centralized_results (doc st)). success r"
    and "map latency_ms (centralized_results (doc st)) = map Some ls"
  shows "main_summary st =
     Inr (if ls \<noteq> []
          then st\<lparr>doc := (doc st)\<lparr>summary := (summary (doc st))(''centralized'' \<mapsto>
                    [''avg_latency_ms'' \<mapsto> PFloat (py_round (fl (sum_list ls / of_nat (length ls))) 2),
                     ''min_latency_ms'' \<mapsto> PFloat (py_round (Min (set ls)) 2),
                     ''max_latency_ms'' \<mapsto> PFloat (py_round (Max (set ls)) 2)])\<rparr>,
                  lines := lines st @ [SummaryLines]\<rparr>
          else st)"
proof -
  have "latencies (centralized_results (doc st)) = Inr ls"
    using assms by (rule latencies_all_success)
  then show ?thesis
    by (simp add: main_summary_def try_bind_def mean_def py_min_eq py_max_eq)
qed

lemma demo_p2p_eq:
  assumes "summary d ''centralized'' = Some c"
    and "c ''avg_latency_ms'' = Some (PFloat a)"
    and "c ''min_latency_ms'' = Some (PFloat lo)"
    and "c ''max_latency_ms'' = Some (PFloat hi)"
  shows "demo_p2p d =
     Inr (d\<lparr>summary := (summary d)(''p2p'' \<mapsto>
                [''avg_latency_ms'' \<mapsto> PFloat (fl (a * fl 0.3)),
                 ''min_latency_ms'' \<mapsto> PFloat (fl (lo * fl 0.2)),
                 ''max_latency_ms'' \<mapsto> PFloat (fl (hi * fl 0.4))]),
            p2p_results :=
              map (\<lambda>i. empty_sample\<lparr>success := True,
                                      latency_ms := Some (fl (fl (a * fl 0.3) + of_int (i * 5)))\<rparr>)
                [-2..2]\<rparr>)"
  using assms by (simp add: demo_p2p_def field_times_def try_bind_def)

lemma main_offline:
  "health env = RequestException m \<Longrightarrow>
   main env = \<lparr>console = [Banner, BackendOffline], sampled = [], saved_file = None,
               graph_arg = None, raised = None\<rparr>"
  by (simp add: main_def stopped_def)

lemma main_online:
  assumes "health env = Responded r" and "dashboard env = None"
  shows "main env = demo_run env
           [Banner, if status_code r = 200 then BackendOnline else BackendNon200, Dashboard]"
  using assms by (simp add: main_def)

lemma save_and_graph_eq:
  fixes env st ls
  defines "avg \<equiv> py_round (fl (sum_list ls / of_nat (length ls))) 2"
  defines "lo \<equiv> py_round (Min (set ls)) 2"
  defines "hi \<equiv> py_round (Max (set ls)) 2"
  assumes "HAS_MATPLOTLIB env \<and> centralized_results (doc st) \<noteq> [] \<longrightarrow>
           summary (doc st) ''centralized'' =
             Some [''avg_latency_ms'' \<mapsto> PFloat avg, ''min_latency_ms'' \<mapsto> PFloat lo,
                   ''max_latency_ms'' \<mapsto> PFloat hi]"
  shows "save_and_graph env st =
     \<lparr>console = lines st @ [ResultsSaved, MonitoringComplete] @
                 (if HAS_MATPLOTLIB env \<and> centralized_results (doc st) \<noteq> []
                  then [GeneratingGraph] else []),
      sampled = urls_sampled st,
      saved_file = Some (doc st),
      graph_arg =
        (if HAS_MATPLOTLIB env \<and> centralized_results (doc st) \<noteq> []
         then Some ((doc st)\<lparr>summary := (summary (doc st))(''p2p'' \<mapsto>
                [''avg_latency_ms'' \<mapsto> PFloat (fl (avg * fl 0.3)),
                 ''min_latency_ms'' \<mapsto> PFloat (fl (lo * fl 0.2)),
                 ''max_latency_ms'' \<mapsto> PFloat (fl (hi * fl 0.4))]),
              p2p_results :=
                map (\<lambda>i. empty_sample\<lparr>success := True,
                                        latency_ms := Some (fl (fl (avg * fl 0.3) + of_int (i * 5)))\<rparr>)
                  [-2..2]\<rparr>)
         else None),
      raised = None\<rparr>"
proof (cases "HAS_MATPLOTLIB env \<and> centralized_results (doc st) \<noteq> []")
  case False
  then show ?thesis
    by (auto simp: save_and_graph_def Let_def stopped_def)
next
  case True
  with assms(4) have c: "summary (doc st) ''centralized'' =
             Some [''avg_latency_ms'' \<mapsto> PFloat avg, ''min_latency_ms'' \<mapsto> PFloat lo,
                   ''max_latency_ms'' \<mapsto> PFloat hi]" by blast
  have "demo_p2p (doc st) =
     Inr ((doc st)\<lparr>summary := (summary (doc st))(''p2p'' \<mapsto>
                [''avg_latency_ms'' \<mapsto> PFloat (fl (avg * fl 0.3)),
                 ''min_latency_ms'' \<mapsto> PFloat (fl (lo * fl 0.2)),
                 ''max_latency_ms'' \<mapsto> PFloat (fl (hi * fl 0.4))]),
              p2p_results :=
                map (\<lambda>i. empty_sample\<lparr>success := True,
                                        latency_ms := Some (fl (fl (avg * fl 0.3) + of_int (i * 5)))\<rparr>)
                  [-2..2]\<rparr>)"
    by (rule demo_p2p_eq [OF c]) simp_all
  with True show ?thesis
    by (simp add: save_and_graph_def Let_def)
qed

lemma demo_run_eq:
  fixes env out ls
  defines "C \<equiv> filter success (all_centralized_samples PUBLIC_TEST_URLS 3 (downloads env))"
  defines "avg \<equiv> py_round (fl (sum_list ls / of_nat (length ls))) 2"
  defines "lo \<equiv> py_round (Min (set ls)) 2"
  defines "hi \<equiv> py_round (Max (set ls)) 2"
  defines "F \<equiv> \<lparr>timestamp = now env, p2p_results = [], centralized_results = C,
                 summary = (if ls \<noteq> []
                            then [''centralized'' \<mapsto>
                                    [''avg_latency_ms'' \<mapsto> PFloat avg,
                                     ''min_latency_ms'' \<mapsto> PFloat lo,
                                     ''max_latency_ms'' \<mapsto> PFloat hi]]
                            else Map.empty)\<rparr>"
  assumes ls: "map latency_ms C = map Some ls"
  shows "demo_run env out =
     \<lparr>console = out @ [DemoMode, TestingCentralized] @ progress_lines (downloads env) @
                 (if ls \<noteq> [] then [SummaryLines] else []) @
                 [ResultsSaved, MonitoringComplete] @
                 (if HAS_MATPLOTLIB env \<and> C \<noteq> [] then [GeneratingGraph] else []),
      sampled = concat (map (replicate 3) PUBLIC_TEST_URLS),
      saved_file = Some F,
      graph_arg =
        (if HAS_MATPLOTLIB env \<and> C \<noteq> []
         then Some (F\<lparr>summary := (summary F)(''p2p'' \<mapsto>
                [''avg_latency_ms'' \<mapsto> PFloat (fl (avg * fl 0.3)),
                 ''min_latency_ms'' \<mapsto> PFloat (fl (lo * fl 0.2)),
                 ''max_latency_ms'' \<mapsto> PFloat (fl (hi * fl 0.4))]),
              p2p_results :=
                map (\<lambda>i. empty_sample\<lparr>success := True,
                                        latency_ms := Some (fl (fl (avg * fl 0.3) + of_int (i * 5)))\<rparr>)
                  [-2..2]\<rparr>)
         else None),
      raised = None\<rparr>"
proof -
  define st1 where "st1 = \<lparr>lines = out @ [DemoMode, TestingCentralized] @ progress_lines (downloads env),
                    urls_sampled = concat (map (replicate 3) PUBLIC_TEST_URLS),
                    doc = \<lparr>timestamp = now env, p2p_results = [],
                           centralized_results = C, summary = Map.empty\<rparr>\<rparr>"
  define st2 where "st2 = \<lparr>lines = lines st1 @ (if ls \<noteq> [] then [SummaryLines] else []),
                    urls_sampled = urls_sampled st1, doc = F\<rparr>"
  have samp: "main_sampling (downloads env)
       \<lparr>lines = out @ [DemoMode, TestingCentralized], urls_sampled = [],
        doc = \<lparr>timestamp = now env, p2p_results = [],
               centralized_results = [], summary = Map.empty\<rparr>\<rparr> = st1"
    by (simp add: main_sampling_eq st1_def C_def)
  have ok: "\<forall>r \<in> set (centralized_results (doc st1)). success r"
    by (simp add: st1_def C_def)
  have l1: "map latency_ms (centralized_results (doc st1)) = map Some ls"
    using ls by (simp add: st1_def)
  have nonempty: "C \<noteq> [] \<longleftrightarrow> ls \<noteq> []"
    using ls by (metis map_is_Nil_conv)
  have sum1: "main_summary st1 = Inr st2"
    unfolding main_summary_eq [OF ok l1]
    by (simp add: st1_def st2_def F_def avg_def lo_def hi_def)
  have run: "demo_run env out = save_and_graph env st2"
    unfolding demo_run_def Let_def samp sum1 by simp
  have "HAS_MATPLOTLIB env \<and> centralized_results (doc st2) \<noteq> [] \<longrightarrow>
           summary (doc st2) ''centralized'' =
             Some [''avg_latency_ms'' \<mapsto> PFloat avg, ''min_latency_ms'' \<mapsto> PFloat lo,
                   ''max_latency_ms'' \<mapsto> PFloat hi]"
    using nonempty by (simp add: st2_def F_def)
  then have "save_and_graph env st2 = \<lparr>console = lines st2 @ [ResultsSaved, MonitoringComplete] @
                 (if HAS_MATPLOTLIB env \<and> centralized_results (doc st2) \<noteq> []
                  then [GeneratingGraph] else []),
      sampled = urls_sampled st2,
      saved_file = Some (doc st2),
      graph_arg =
        (if HAS_MATPLOTLIB env \<and> centralized_results (doc st2) \<noteq> []
         then Some ((doc st2)\<lparr>summary := (summary (doc st2))(''p2p'' \<mapsto>
                [''avg_latency_ms'' \<mapsto> PFloat (fl (avg * fl 0.3)),
                 ''min_latency_ms'' \<mapsto> PFloat (fl (lo * fl 0.2)),
                 ''max_latency_ms'' \<mapsto> PFloat (fl (hi * fl 0.4))]),
              p2p_results :=
                map (\<lambda>i. empty_sample\<lparr>success := True,
                                        latency_ms := Some (fl (fl (avg * fl 0.3) + of_int (i * 5)))\<rparr>)
                  [-2..2]\<rparr>)
         else None),
      raised = None\<rparr>"
    unfolding avg_def lo_def hi_def by (rule save_and_graph_eq)
  then show ?thesis
    unfolding run by (simp add: st2_def st1_def F_def)
qed

lemma progress_lines_no_verdict:
  "BackendOffline \<notin> set (progress_lines env)"
  by (auto simp: progress_lines_def)

lemma demo_run_facts:
  "sampled (demo_run env out) = concat (map (replicate 3) PUBLIC_TEST_URLS) \<and>
   raised (demo_run env out) = None \<and>
   set out \<subseteq> set (console (demo_run env out)) \<and>
   (BackendOffline \<notin> set out \<longrightarrow> BackendOffline \<notin> set (console (demo_run env out)))"
proof -
  obtain ls where "map latency_ms (filter success
      (all_centralized_samples PUBLIC_TEST_URLS 3 (downloads env))) = map Some ls"
    using centralized_kept_latencies by blast
  from demo_run_eq [OF this, of out] show ?thesis
    by (auto simp: progress_lines_no_verdict)
qed

subsection \<open>What \<open>main\<close> does\<close>

lemma fl_3_10: "fl 0.3 = 5404319552844595 / 2 ^ 54"
  by (rule fl_evalI [where e = "- 2" and q = "- 54" and m = 5404319552844595])
     (simp_all add: round_half_even_def)

lemma fl_2_10: "fl 0.2 = 3602879701896397 / 2 ^ 54"
  by (rule fl_evalI [where e = "- 3" and q = "- 55" and m = 7205759403792794])
     (simp_all add: round_half_even_def)

lemma fl_4_10: "fl 0.4 = 3602879701896397 / 2 ^ 53"
  by (rule fl_evalI [where e = "- 2" and q = "- 54" and m = 7205759403792794])
     (simp_all add: round_half_even_def)

lemma fl_11_10: "fl (11 / 10) = 4953959590107546 / 2 ^ 52"
  by (rule fl_evalI [where e = 0 and q = "- 52" and m = 4953959590107546])
     (simp_all add: round_half_even_def)

lemma fl_22_100: "fl (22 / 100) = 7926335344172073 / 2 ^ 55"
  by (rule fl_evalI [where e = "- 3" and q = "- 55" and m = 7926335344172073])
     (simp_all add: round_half_even_def)

lemma scaled_100:
  "fl (100 * fl 0.3) = 30" "fl (100 * fl 0.2) = 20" "fl (100 * fl 0.4) = 40"
proof -
  show "fl (100 * fl 0.3) = 30"
    unfolding fl_3_10
    by (rule fl_evalI [where e = 4 and q = "- 48" and m = 8444249301319680])
       (simp_all add: round_half_even_def)
  show "fl (100 * fl 0.2) = 20"
    unfolding fl_2_10
    by (rule fl_evalI [where e = 4 and q = "- 48" and m = 5629499534213120])
       (simp_all add: round_half_even_def)
  show "fl (100 * fl 0.4) = 40"
    unfolding fl_4_10
    by (rule fl_evalI [where e = 5 and q = "- 47" and m = 5629499534213120])
       (simp_all add: round_half_even_def)
qed

lemma inexact_product: "fl (fl (11 / 10) * fl 0.2) = 3963167672086037 / 2 ^ 54"
  unfolding fl_11_10 fl_2_10
  by (rule fl_evalI [where e = "- 3" and q = "- 55" and m = 7926335344172074])
     (simp_all add: round_half_even_def)

text \<open>
  C1, as stated, fails: when the health check is answered with status 500, \<open>main\<close>
  prints the non-200 warning, not the offline message, and goes on to make all six
  centralized measurements.
\<close>

theorem health_gate_counterexample:
  "health unhealthy_env = Responded empty_body_500 \<and>
   status_code empty_body_500 = 500 \<and>
   sampled (main unhealthy_env) =
     [''https://raw.githubusercontent.com/nodejs/node/main/README.md'',
      ''https://raw.githubusercontent.com/nodejs/node/main/README.md'',
      ''https://raw.githubusercontent.com/nodejs/node/main/README.md'',
      ''https://raw.githubusercontent.com/facebook/react/main/README.md'',
      ''https://raw.githubusercontent.com/facebook/react/main/README.md'',
      ''https://raw.githubusercontent.com/facebook/react/main/README.md''] \<and>
   BackendOffline \<notin> set (console (main unhealthy_env)) \<and>
   BackendNon200 \<in> set (console (main unhealthy_env))"
proof -
  have m: "main unhealthy_env = demo_run unhealthy_env [Banner, BackendNon200, Dashboard]"
    using main_online [of unhealthy_env empty_body_500]
    by (simp add: unhealthy_env_def empty_body_500_def)
  from demo_run_facts [of unhealthy_env "[Banner, BackendNon200, Dashboard]"]
  show ?thesis
    unfolding m
    by (simp add: PUBLIC_TEST_URLS_def numeral_3_eq_3)
       (simp add: unhealthy_env_def empty_body_500_def)
qed

text \<open>
  C1, amended. When the health check gets any response, \<open>main\<close> reports it (online for
  200, a warning for any other status), never the offline message, and goes on to the
  dashboard; if that returns, \<open>main\<close> makes the six centralized measurements and ends
  normally, and if it raises, the exception leaves \<open>main\<close> with no measurement made. An
  exception of the health request that is not a \<open>requests.RequestException\<close> leaves
  \<open>main\<close> at once. The offline message is printed exactly when the health request
  raises a \<open>requests.RequestException\<close>; \<open>main\<close> then returns with no measurement
  made, and this is the only way it returns normally without measuring.
\<close>

theorem health_gate:
  "(\<forall>r. health env = Responded r \<longrightarrow>
      (if status_code r = 200 then BackendOnline else BackendNon200)
        \<in> set (console (main env)) \<and>
      (dashboard env = None \<longrightarrow>
         sampled (main env) = concat (map (replicate 3) PUBLIC_TEST_URLS) \<and>
         length (sampled (main env)) = 6 \<and>
         raised (main env) = None) \<and>
      (\<forall>e. dashboard env = Some e \<longrightarrow>
         sampled (main env) = [] \<and> raised (main env) = Some e)) \<and>
   (\<forall>m. health env = OtherException m \<longrightarrow>
      main env = \<lparr>console = [Banner], sampled = [], saved_file = None,
                  graph_arg = None, raised = Some (OtherError m)\<rparr>) \<and>
   (\<forall>m. health env = RequestException m \<longrightarrow>
      main env = \<lparr>console = [Banner, BackendOffline], sampled = [], saved_file = None,
                  graph_arg = None, raised = None\<rparr>) \<and>
   (BackendOffline \<in> set (console (main env)) \<longleftrightarrow> (\<exists>m. health env = RequestException m)) \<and>
   (sampled (main env) = [] \<and> raised (main env) = None \<longleftrightarrow>
      (\<exists>m. health env = RequestException m))"
proof (cases "health env")
  case (RequestException m)
  then have "main env = \<lparr>console = [Banner, BackendOffline], sampled = [], saved_file = None,
                  graph_arg = None, raised = None\<rparr>"
    by (rule main_offline)
  with RequestException show ?thesis by simp
next
  case (OtherException m)
  then have "main env = \<lparr>console = [Banner], sampled = [], saved_file = None,
                  graph_arg = None, raised = Some (OtherError m)\<rparr>"
    by (simp add: main_def stopped_def)
  with OtherException show ?thesis by simp
next
  case (Responded r)
  define v where "v = (if status_code r = 200 then BackendOnline else BackendNon200)"
  have v: "v \<noteq> BackendOffline" by (simp add: v_def)
  show ?thesis
  proof (cases "dashboard env")
    case (Some e)
    with Responded have "main env = \<lparr>console = [Banner, v, Dashboard], sampled = [],
        saved_file = None, graph_arg = None, raised = Some e\<rparr>"
      by (simp add: main_def stopped_def v_def)
    with Responded Some v show ?thesis by (auto simp: v_def)
  next
    case None
    have m: "main env = demo_run env [Banner, v, Dashboard]"
      unfolding v_def using Responded None by (rule main_online)
    have six: "length (concat (map (replicate 3) PUBLIC_TEST_URLS)) = 6"
      by (simp add: PUBLIC_TEST_URLS_def)
    from demo_run_facts [of env "[Banner, v, Dashboard]"] v
    have f: "sampled (main env) = concat (map (replicate 3) PUBLIC_TEST_URLS)"
      "v \<in> set (console (main env))"
      "BackendOffline \<notin> set (console (main env))"
      "raised (main env) = None"
      unfolding m by simp_all
    from f(1) six have "length (sampled (main env)) = 6" by simp
    then have "sampled (main env) \<noteq> []" by auto
    with f six Responded None show ?thesis by (auto simp: v_def)
  qed
qed

theorem health_gate_witness:
  "main offline_env = \<lparr>console = [Banner, BackendOffline], sampled = [], saved_file = None,
                         graph_arg = None, raised = None\<rparr> \<and>
   length (sampled (main chart_env)) = 6 \<and>
   BackendOnline \<in> set (console (main chart_env)) \<and>
   BackendOffline \<notin> set (console (main chart_env)) \<and>
   length (sampled (main unhealthy_env)) = 6 \<and>
   BackendNon200 \<in> set (console (main unhealthy_env)) \<and>
   BackendOffline \<notin> set (console (main unhealthy_env)) \<and>
   main probe_error_env = \<lparr>console = [Banner], sampled = [], saved_file = None,
                             graph_arg = None,
                             raised = Some (OtherError ''Invalid IPv6 URL'')\<rparr> \<and>
   sampled (main dashboard_error_env) = [] \<and>
   raised (main dashboard_error_env) =
     Some (AttributeError ''list object has no attribute get'') \<and>
   BackendOnline \<in> set (console (main dashboard_error_env))"
proof -
  have "health offline_env = RequestException ''Connection refused''"
    by (simp add: offline_env_def)
  with health_gate [of offline_env]
  have a: "main offline_env = \<lparr>console = [Banner, BackendOffline], sampled = [],
      saved_file = None, graph_arg = None, raised = None\<rparr>"
    by blast
  have "health chart_env = Responded report_200" "dashboard chart_env = None"
    "status_code report_200 = 200"
    by (simp_all add: chart_env_def report_200_def)
  with health_gate [of chart_env]
  have b: "length (sampled (main chart_env)) = 6 \<and>
      BackendOnline \<in> set (console (main chart_env)) \<and>
      BackendOffline \<notin> set (console (main chart_env))"
    by force
  have "health unhealthy_env = Responded empty_body_500" "dashboard unhealthy_env = None"
    "status_code empty_body_500 \<noteq> 200"
    by (simp_all add: unhealthy_env_def empty_body_500_def)
  with health_gate [of unhealthy_env]
  have c: "length (sampled (main unhealthy_env)) = 6 \<and>
      BackendNon200 \<in> set (console (main unhealthy_env)) \<and>
      BackendOffline \<notin> set (console (main unhealthy_env))"
    by force
  have "health probe_error_env = OtherException ''Invalid IPv6 URL''"
    by (simp add: probe_error_env_def)
  with health_gate [of probe_error_env]
  have d: "main probe_error_env = \<lparr>console = [Banner], sampled = [], saved_file = None,
      graph_arg = None, raised = Some (OtherError ''Invalid IPv6 URL'')\<rparr>"
    by blast
  have "health dashboard_error_env = Responded report_200"
    "dashboard dashboard_error_env = Some (AttributeError ''list object has no attribute get'')"
    "status_code report_200 = 200"
    by (simp_all add: dashboard_error_env_def report_200_def)
  with health_gate [of dashboard_error_env]
  have e: "sampled (main dashboard_error_env) = [] \<and>
      raised (main dashboard_error_env) =
        Some (AttributeError ''list object has no attribute get'') \<and>
      BackendOnline \<in> set (console (main dashboard_error_env))"
    by force
  from a b c d e show ?thesis by blast
qed

text \<open>
  C6. Whenever \<open>main\<close> makes the mock P2P summary for the chart, its figures are the
  centralized average times 0.3, minimum times 0.2 and maximum times 0.4, each the float
  product that Python's \<open>*\<close> gives (the double nearest to the product of the figure and
  the double nearest to the literal); and the results file, written before that, never
  holds them: its P2P sequence is empty and its summary has no P2P entry.
\<close>

theorem demo_p2p_figures:
  "(\<forall>d. graph_arg (main env) = Some d \<longrightarrow>
      (\<exists>f c a lo hi.
          saved_file (main env) = Some f \<and>
          summary f ''centralized'' = Some c \<and>
          summary d ''centralized'' = Some c \<and>
          c ''avg_latency_ms'' = Some (PFloat a) \<and>
          c ''min_latency_ms'' = Some (PFloat lo) \<and>
          c ''max_latency_ms'' = Some (PFloat hi) \<and>
          summary d ''p2p'' =
            Some [''avg_latency_ms'' \<mapsto> PFloat (fl (a * fl 0.3)),
                  ''min_latency_ms'' \<mapsto> PFloat (fl (lo * fl 0.2)),
                  ''max_latency_ms'' \<mapsto> PFloat (fl (hi * fl 0.4))])) \<and>
   (\<forall>f. saved_file (main env) = Some f \<longrightarrow>
      p2p_results f = [] \<and> summary f ''p2p'' = None)"
proof (cases "health env")
  case (RequestException m)
  then show ?thesis by (simp add: main_def stopped_def)
next
  case (OtherException m)
  then show ?thesis by (simp add: main_def stopped_def)
next
  case (Responded r)
  show ?thesis
  proof (cases "dashboard env")
    case (Some e)
    with Responded show ?thesis by (simp add: main_def stopped_def)
  next
    case None
    define v where "v = (if status_code r = 200 then BackendOnline else BackendNon200)"
    have m: "main env = demo_run env [Banner, v, Dashboard]"
      unfolding v_def using Responded None by (rule main_online)
    obtain ls where ls: "map latency_ms (filter success
        (all_centralized_samples PUBLIC_TEST_URLS 3 (downloads env))) = map Some ls"
      using centralized_kept_latencies by blast
    have ne: "filter success (all_centralized_samples PUBLIC_TEST_URLS 3 (downloads env)) \<noteq> []
        \<Longrightarrow> ls \<noteq> []"
      using ls by (metis map_is_Nil_conv)
    define C where "C = filter success (all_centralized_samples PUBLIC_TEST_URLS 3 (downloads env))"
    define S where "S = [''avg_latency_ms'' \<mapsto> PFloat (py_round (fl (sum_list ls / of_nat (length ls))) 2),
                         ''min_latency_ms'' \<mapsto> PFloat (py_round (Min (set ls)) 2),
                         ''max_latency_ms'' \<mapsto> PFloat (py_round (Max (set ls)) 2)]"
    define F where "F = \<lparr>timestamp = now env, p2p_results = [], centralized_results = C,
                         summary = (if ls \<noteq> [] then [''centralized'' \<mapsto> S] else Map.empty)\<rparr>"
    define P where "P = [''avg_latency_ms'' \<mapsto> PFloat (fl (py_round (fl (sum_list ls / of_nat (length ls))) 2 * fl 0.3)),
                         ''min_latency_ms'' \<mapsto> PFloat (fl (py_round (Min (set ls)) 2 * fl 0.2)),
                         ''max_latency_ms'' \<mapsto> PFloat (fl (py_round (Max (set ls)) 2 * fl 0.4))]"
    note run = demo_run_eq [OF ls, of "[Banner, v, Dashboard]", folded C_def, folded S_def,
        folded F_def, folded P_def]
    have saved: "saved_file (main env) = Some F"
      unfolding m run by simp
    have graph: "\<exists>rs. d = F\<lparr>summary := (summary F)(''p2p'' \<mapsto> P), p2p_results := rs\<rparr> \<and> ls \<noteq> []"
      if "graph_arg (main env) = Some d" for d
    proof (cases "HAS_MATPLOTLIB env \<and> C \<noteq> []")
      case True
      then have "ls \<noteq> []" using ne by (simp add: C_def)
      moreover from that True
      have "d = F\<lparr>summary := (summary F)(''p2p'' \<mapsto> P),
                p2p_results := map (\<lambda>i. empty_sample\<lparr>success := True,
                     latency_ms := Some (fl (fl (py_round (fl (sum_list ls / of_nat (length ls))) 2 * fl 0.3)
                                         + of_int (i * 5)))\<rparr>) [-2..2]\<rparr>"
        unfolding m run by simp
      ultimately show ?thesis by blast
    next
      case False
      with that show ?thesis unfolding m run by simp
    qed
    have first: "\<exists>f c a lo hi.
          saved_file (main env) = Some f \<and>
          summary f ''centralized'' = Some c \<and>
          summary d ''centralized'' = Some c \<and>
          c ''avg_latency_ms'' = Some (PFloat a) \<and>
          c ''min_latency_ms'' = Some (PFloat lo) \<and>
          c ''max_latency_ms'' = Some (PFloat hi) \<and>
          summary d ''p2p'' =
            Some [''avg_latency_ms'' \<mapsto> PFloat (fl (a * fl 0.3)),
                  ''min_latency_ms'' \<mapsto> PFloat (fl (lo * fl 0.2)),
                  ''max_latency_ms'' \<mapsto> PFloat (fl (hi * fl 0.4))]"
      if "graph_arg (main env) = Some d" for d
    proof -
      from graph [OF that] obtain rs where
        d: "d = F\<lparr>summary := (summary F)(''p2p'' \<mapsto> P), p2p_results := rs\<rparr>"
        and l: "ls \<noteq> []" by blast
      have 1: "summary F ''centralized'' = Some S" using l by (simp add: F_def)
      have 2: "summary d ''centralized'' = Some S" using l by (simp add: d F_def)
      have 3: "S ''avg_latency_ms'' = Some (PFloat (py_round (fl (sum_list ls / of_nat (length ls))) 2))"
        "S ''min_latency_ms'' = Some (PFloat (py_round (Min (set ls)) 2))"
        "S ''max_latency_ms'' = Some (PFloat (py_round (Max (set ls)) 2))"
        by (simp_all add: S_def)
      have 4: "summary d ''p2p'' = Some P" by (simp add: d)
      from saved 1 2 3 4 show ?thesis unfolding P_def by blast
    qed
    have second: "p2p_results f = [] \<and> summary f ''p2p'' = None"
      if "saved_file (main env) = Some f" for f
    proof -
      from that saved have "f = F" by simp
      then show ?thesis by (simp add: F_def)
    qed
    from first second show ?thesis by blast
  qed
qed

theorem demo_p2p_figures_witness:
  "(\<exists>d f. graph_arg (main chart_env) = Some d \<and>
         saved_file (main chart_env) = Some f \<and>
         summary f ''centralized'' =
           Some [''avg_latency_ms'' \<mapsto> PFloat 100, ''min_latency_ms'' \<mapsto> PFloat 100,
                 ''max_latency_ms'' \<mapsto> PFloat 100] \<and>
         summary d ''p2p'' =
           Some [''avg_latency_ms'' \<mapsto> PFloat 30, ''min_latency_ms'' \<mapsto> PFloat 20,
                 ''max_latency_ms'' \<mapsto> PFloat 40] \<and>
         p2p_results f = [] \<and> summary f ''p2p'' = None) \<and>
   fl (100 * fl 0.3) = 30 \<and> fl (100 * fl 0.2) = 20 \<and> fl (100 * fl 0.4) = 40 \<and>
   fl (fl (11 / 10) * fl 0.2) = 3963167672086037 / 2 ^ 54 \<and>
   fl (22 / 100) = 7926335344172073 / 2 ^ 55"
proof -
  have m: "main chart_env = demo_run chart_env [Banner, BackendOnline, Dashboard]"
    using main_online [of chart_env report_200]
    by (simp add: chart_env_def report_200_def)
  have dl: "downloads chart_env = steady_env" "HAS_MATPLOTLIB chart_env"
    by (simp_all add: chart_env_def)
  have ls: "map latency_ms (filter success
      (all_centralized_samples PUBLIC_TEST_URLS 3 (downloads chart_env))) =
      map Some [100, 100, 100, 100, 100, 100]"
    unfolding dl by (rule steady_demo_latencies)
  have ne: "filter success (all_centralized_samples PUBLIC_TEST_URLS 3 (downloads chart_env))
      \<noteq> []"
    using ls by (metis list.simps(3) map_is_Nil_conv)
  have r: "py_round (fl (sum_list [100, 100, 100, 100, 100, 100] / of_nat (length [100, 100, 100, 100, 100, 100 :: real]))) 2 = 100"
    "py_round (Min (set [100, 100, 100, 100, 100, 100])) 2 = 100"
    "py_round (Max (set [100, 100, 100, 100, 100, 100])) 2 = 100"
    by (simp_all add: fl_evals)
  note run = demo_run_eq [OF ls, of "[Banner, BackendOnline, Dashboard]", unfolded r]
  have f: "\<exists>f. saved_file (main chart_env) = Some f \<and>
      summary f ''centralized'' =
           Some [''avg_latency_ms'' \<mapsto> PFloat 100, ''min_latency_ms'' \<mapsto> PFloat 100,
                 ''max_latency_ms'' \<mapsto> PFloat 100]"
    unfolding m run by simp
  have g: "\<exists>d. graph_arg (main chart_env) = Some d"
    unfolding m run using ne dl(2) by simp
  then obtain d where d: "graph_arg (main chart_env) = Some d" by blast
  with demo_p2p_figures [of chart_env] obtain f c a lo hi where w:
    "saved_file (main chart_env) = Some f"
    "summary f ''centralized'' = Some c"
    "c ''avg_latency_ms'' = Some (PFloat a)"
    "c ''min_latency_ms'' = Some (PFloat lo)"
    "c ''max_latency_ms'' = Some (PFloat hi)"
    "summary d ''p2p'' =
            Some [''avg_latency_ms'' \<mapsto> PFloat (fl (a * fl 0.3)),
                  ''min_latency_ms'' \<mapsto> PFloat (fl (lo * fl 0.2)),
                  ''max_latency_ms'' \<mapsto> PFloat (fl (hi * fl 0.4))]"
    "p2p_results f = [] \<and> summary f ''p2p'' = None"
    by blast
  from f w(1,2) have c: "c = [''avg_latency_ms'' \<mapsto> PFloat 100, ''min_latency_ms'' \<mapsto> PFloat 100,
                 ''max_latency_ms'' \<mapsto> PFloat 100]" by auto
  from w(3,4,5) have "a = 100" "lo = 100" "hi = 100" unfolding c by simp_all
  with w(6) have "summary d ''p2p'' =
           Some [''avg_latency_ms'' \<mapsto> PFloat 30, ''min_latency_ms'' \<mapsto> PFloat 20,
                 ''max_latency_ms'' \<mapsto> PFloat 40]"
    by (simp only: scaled_100)
  with w(1,2,7) d c have "\<exists>d f. graph_arg (main chart_env) = Some d \<and>
         saved_file (main chart_env) = Some f \<and>
         summary f ''centralized'' =
           Some [''avg_latency_ms'' \<mapsto> PFloat 100, ''min_latency_ms'' \<mapsto> PFloat 100,
                 ''max_latency_ms'' \<mapsto> PFloat 100] \<and>
         summary d ''p2p'' =
           Some [''avg_latency_ms'' \<mapsto> PFloat 30, ''min_latency_ms'' \<mapsto> PFloat 20,
                 ''max_latency_ms'' \<mapsto> PFloat 40] \<and>
         p2p_results f = [] \<and> summary f ''p2p'' = None"
    by blast
  with scaled_100 inexact_product fl_22_100 show ?thesis by blast
qed

end
